theory Spec2Isabelle
  imports Main "HOL-Library.AList"
begin

section \<open>Strings\<close>

text \<open>
  A Python \<open>str\<close> is a sequence of Unicode code points, and \<open>len\<close> counts code points.
  A character is therefore modelled by its code point and a string by the list of its
  code points. \<open>str\<close> turns a literal of the theory into such a list.
\<close>

type_synonym pychar = nat
type_synonym pystr = "pychar list"

definition str :: "string \<Rightarrow> pystr" where
  "str s = map of_char s"

section \<open>Folder naming (backend.py)\<close>

text \<open>
  The character class \<open>[a-zA-Z0-9_-]\<close> of the pattern in \<open>sanitize_email_for_folder\<close>:
  the ranges \<open>a-z\<close> (97..122), \<open>A-Z\<close> (65..90), \<open>0-9\<close> (48..57), the underscore (95) and
  the hyphen (45).
\<close>

definition folder_char :: "pychar \<Rightarrow> bool" where
  "folder_char c \<longleftrightarrow>
     (97 \<le> c \<and> c \<le> 122) \<or> (65 \<le> c \<and> c \<le> 90) \<or> (48 \<le> c \<and> c \<le> 57) \<or> c = 95 \<or> c = 45"

text \<open>
  \<open>re.sub\<close> for a pattern that is one character class: the scan goes through the string from
  the left, a character the class matches is replaced by the replacement string, and any
  other character is copied.
\<close>

fun re_sub_class :: "(pychar \<Rightarrow> bool) \<Rightarrow> pystr \<Rightarrow> pystr \<Rightarrow> pystr" where
  "re_sub_class matches repl [] = []"
| "re_sub_class matches repl (c # cs) =
     (if matches c then repl @ re_sub_class matches repl cs
      else c # re_sub_class matches repl cs)"

text \<open>
  \<open>re.sub(r'[^a-zA-Z0-9_-]', '_', email)\<close>: the pattern is the class negated.
\<close>

definition sanitize_email_for_folder :: "pystr \<Rightarrow> pystr" where
  "sanitize_email_for_folder email = re_sub_class (\<lambda>c. \<not> folder_char c) (str ''_'') email"

text \<open>
  Every character of the string is in the class. Such a string matches
  \<open>^[A-Za-z0-9_-]*$\<close>.
\<close>

definition folder_name :: "pystr \<Rightarrow> bool" where
  "folder_name s = list_all folder_char s"

section \<open>Paths (pathlib, POSIX flavour)\<close>

abbreviation slash :: pychar where "slash \<equiv> 47"
abbreviation dot :: pychar where "dot \<equiv> 46"
abbreviation dotdot :: pystr where "dotdot \<equiv> [46, 46]"

text \<open>
  A path is the tuple \<open>parts\<close> of a \<open>pathlib\<close> path: its components, after the root
  (\<open>/\<close> or \<open>//\<close>) when the path is absolute.
\<close>

type_synonym path = "pystr list"

text \<open>\<open>s.split('/')\<close>.\<close>

fun split_slash :: "pystr \<Rightarrow> pystr list" where
  "split_slash [] = [[]]"
| "split_slash (c # cs) =
     (if c = slash then [] # split_slash cs
      else (case split_slash cs of [] \<Rightarrow> [[c]] | seg # segs \<Rightarrow> (c # seg) # segs))"

text \<open>
  \<open>posixpath.splitroot\<close>: no root unless the string starts with a slash; the root is
  \<open>//\<close> when the string starts with exactly two slashes and \<open>/\<close> otherwise.
\<close>

definition root_of :: "pystr \<Rightarrow> pystr" where
  "root_of s =
     (if take 1 s \<noteq> [slash] then []
      else if take 1 (drop 1 s) = [slash] \<and> take 1 (drop 2 s) \<noteq> [slash] then [slash, slash]
      else [slash])"

text \<open>The components of the part after the root: empty ones and \<open>.\<close> are dropped.\<close>

definition components :: "pystr \<Rightarrow> path" where
  "components rel = filter (\<lambda>x. x \<noteq> [] \<and> x \<noteq> [dot]) (split_slash rel)"

definition parse_path :: "pystr \<Rightarrow> path" where
  "parse_path s =
     (let root = root_of s; rel = drop (length root) s
      in (if root = [] then [] else [root]) @ components rel)"

text \<open>
  \<open>p / s\<close>: the strings are joined by \<open>posixpath.join\<close> and parsed again, so a segment that
  starts with a slash discards everything before it.
\<close>

definition joinpath :: "path \<Rightarrow> pystr \<Rightarrow> path" where
  "joinpath p s = (if root_of s \<noteq> [] then parse_path s else p @ components s)"

definition is_absolute :: "path \<Rightarrow> bool" where
  "is_absolute p \<longleftrightarrow> p \<noteq> [] \<and> (hd p = [slash] \<or> hd p = [slash, slash])"

text \<open>\<open>p.name\<close>: the last component, the empty string when there is none.\<close>

definition name :: "path \<Rightarrow> pystr" where
  "name p = (let tail = (if is_absolute p then tl p else p) in if tail = [] then [] else last tail)"

text \<open>\<open>s.rfind('.')\<close>, with \<open>None\<close> for \<open>-1\<close>.\<close>

definition rfind_dot :: "pystr \<Rightarrow> nat option" where
  "rfind_dot s =
     (if dot \<in> set s then Some (length s - 1 - length (takeWhile (\<lambda>c. c \<noteq> dot) (rev s)))
      else None)"

text \<open>\<open>p.stem\<close>: the name without its last suffix; a leading or trailing dot starts no suffix.\<close>

definition stem :: "path \<Rightarrow> pystr" where
  "stem p =
     (let n = name p
      in case rfind_dot n of
           None \<Rightarrow> n
         | Some i \<Rightarrow> if 0 < i \<and> i + 1 < length n then take i n else n)"

section \<open>The file system\<close>

text \<open>
  The program reaches the file system through paths relative to its working directory,
  which it never changes, and through whatever absolute path a request can make it build.
  The store keeps the regular files under their absolute paths with no \<open>..\<close> left.
  Directories and symbolic links are not modelled: the directories the program creates at
  import and with \<open>mkdir\<close> are taken to exist, so \<open>mkdir\<close> leaves the store as it is,
  \<open>exists()\<close> and \<open>is_file()\<close> agree, and \<open>..\<close> is resolved on the path's text. That is how
  Windows resolves it, and how POSIX does whenever the directories before the \<open>..\<close> exist.
  A leading \<open>//\<close> is the root. Errors of the operating system other than a missing file
  (a name that is too long, a permission that is denied) are not modelled either.

  Text is written through the encoding of the locale, which cannot encode every character:
  \<open>encodable\<close> tells which characters it can.
\<close>

type_synonym content = pystr

text \<open>
  What an external tool did with the output path it was given. \<open>Completed c\<close>: it finished
  and left \<open>c\<close> there. \<open>Failed f\<close>: it could not be run or reported an error, and left \<open>f\<close>
  there if it wrote anything at all.
\<close>

datatype outcome = Completed content | Failed "content option"

text \<open>
  The external capabilities a request uses, as this request finds them. The two generators
  are \<open>generate_initial_dot_code\<close> and \<open>modify_dot_code\<close>, which return what the remote model
  answered (after their own trimming), or \<open>None\<close> from their \<open>except\<close> branch. \<open>dot_exe\<close> is the
  Graphviz run of \<open>convert_dot_to_png\<close> on a graph text, \<open>fitz_insert\<close> the PyMuPDF calls of
  \<open>embed_image_in_pdf\<close> on the template's and the image's bytes, and \<open>uuid4\<close> the string
  \<open>str(uuid.uuid4())\<close> evaluates to.
\<close>

record env =
  generate_initial_dot_code :: "pystr \<Rightarrow> pystr option"
  modify_dot_code :: "pystr \<Rightarrow> pystr \<Rightarrow> pystr option"
  dot_exe :: "content \<Rightarrow> outcome"
  fitz_insert :: "content \<Rightarrow> content \<Rightarrow> outcome"
  uuid4 :: pystr

text \<open>The invocations of external capabilities, kept to tell which ones a request made.\<close>

datatype call =
    GenerateInitial pystr
  | Modify pystr pystr
  | Graphviz content
  | PdfEmbed content content

record world =
  cwd :: path
  files :: "(path \<times> content) list"
  encodable :: "pychar \<Rightarrow> bool"
  calls :: "call list"

fun resolve_step :: "path \<Rightarrow> pystr \<Rightarrow> path" where
  "resolve_step acc c =
     (if c = dotdot then
        (if acc = [] \<or> last acc = dotdot then acc @ [c]
         else if last acc = [slash] \<or> last acc = [slash, slash] then acc
         else butlast acc)
      else acc @ [c])"

definition resolve :: "world \<Rightarrow> path \<Rightarrow> path" where
  "resolve w p =
     (if is_absolute p then foldl resolve_step [[slash]] (tl p)
      else foldl resolve_step (cwd w) p)"

definition read_text :: "world \<Rightarrow> path \<Rightarrow> content option" where
  "read_text w p = map_of (files w) (resolve w p)"

definition is_file :: "world \<Rightarrow> path \<Rightarrow> bool" where
  "is_file w p \<longleftrightarrow> read_text w p \<noteq> None"

definition exists_path :: "world \<Rightarrow> path \<Rightarrow> bool" where
  "exists_path w p \<longleftrightarrow> read_text w p \<noteq> None"

text \<open>The file at a path becomes the given content, created if it was not there.\<close>

definition put :: "path \<Rightarrow> content \<Rightarrow> world \<Rightarrow> world" where
  "put p c w = w\<lparr>files := AList.update (resolve w p) c (files w)\<rparr>"

definition text_encodable :: "world \<Rightarrow> pystr \<Rightarrow> bool" where
  "text_encodable w c = list_all (encodable w) c"

text \<open>
  \<open>Path.write_text\<close> opens the file with mode \<open>w\<close>, which creates or truncates it, and then
  encodes the text as a whole. When the text holds a character the encoding cannot encode,
  \<open>UnicodeEncodeError\<close> is raised with nothing written, and the file is left empty. The
  result tells whether the call returned (\<open>True\<close>) or raised.
\<close>

definition write_text :: "path \<Rightarrow> content \<Rightarrow> world \<Rightarrow> bool \<times> world" where
  "write_text p c w = (if text_encodable w c then (True, put p c w) else (False, put p [] w))"

definition unlink :: "path \<Rightarrow> world \<Rightarrow> world" where
  "unlink p w = w\<lparr>files := AList.delete (resolve w p) (files w)\<rparr>"

definition mkdir :: "path \<Rightarrow> world \<Rightarrow> world" where
  "mkdir p w = w"

definition record_call :: "call \<Rightarrow> world \<Rightarrow> world" where
  "record_call c w = w\<lparr>calls := calls w @ [c]\<rparr>"

text \<open>What a tool left at its output path.\<close>

definition leave :: "path \<Rightarrow> content option \<Rightarrow> world \<Rightarrow> world" where
  "leave p f w = (case f of None \<Rightarrow> w | Some c \<Rightarrow> put p c w)"

section \<open>The backend (backend.py)\<close>

definition TEMP_DIR :: path where "TEMP_DIR = parse_path (str ''./temp_files'')"
definition SESSION_DIR :: path where "SESSION_DIR = parse_path (str ''./session_files'')"
definition OUTPUT_DIR :: path where "OUTPUT_DIR = parse_path (str ''./outputs'')"
definition TEMPLATE_DIR :: path where "TEMPLATE_DIR = parse_path (str ''./flowchart_templates'')"
definition PDF_TEMPLATE_PATH :: pystr where "PDF_TEMPLATE_PATH = str ''Template.pdf''"

text \<open>
  The failures of the request handlers, by the message and status the code answers with:
  \<open>ValidationError\<close> is the 400 for a missing field, \<open>TemplateNotFound\<close> and
  \<open>SessionNotFound\<close> the two 404s, \<open>TemplateUnreadable\<close> the 500 "Could not read template
  file", \<open>GenerationFailed\<close> "Failed to generate flowchart logic.", \<open>RenderFailed\<close> "Failed to
  convert flowchart to an image." and \<open>EmbedFailed\<close> "Failed to embed image in PDF.".
  \<open>Uncaught\<close> is an exception that no handler of the program catches.
\<close>

datatype error =
    ValidationError
  | TemplateNotFound
  | TemplateUnreadable
  | SessionNotFound
  | GenerationFailed
  | RenderFailed
  | EmbedFailed
  | Uncaught

text \<open>
  \<open>convert_dot_to_png\<close>: the graph text is written to a scratch file beside the image,
  Graphviz is run on it, and the \<open>finally\<close> block removes the scratch file on every way out
  of the \<open>try\<close>. The scratch file is written before the \<open>try\<close>: when that raises, the
  exception leaves the function.
\<close>

definition convert_dot_to_png :: "env \<Rightarrow> pystr \<Rightarrow> path \<Rightarrow> world \<Rightarrow> (error + bool) \<times> world" where
  "convert_dot_to_png e dot_code output_path w =
     (let dot_file = joinpath TEMP_DIR (stem output_path @ str ''.dot'');
          (written, w0) = write_text dot_file dot_code w
      in if \<not> written then (Inl Uncaught, w0)
         else (let w1 = record_call (Graphviz dot_code) w0;
                   (ok, w2) = (case dot_exe e dot_code of
                                 Completed png \<Rightarrow> (True, put output_path png w1)
                               | Failed f \<Rightarrow> (False, leave output_path f w1));
                   w3 = (if exists_path w2 dot_file then unlink dot_file w2 else w2)
               in (Inr ok, w3)))"

text \<open>
  \<open>embed_image_in_pdf\<close>: \<open>False\<close> when the template is missing, and when PyMuPDF raises,
  as it does on an image it cannot read.
\<close>

definition embed_image_in_pdf :: "env \<Rightarrow> pystr \<Rightarrow> path \<Rightarrow> path \<Rightarrow> world \<Rightarrow> bool \<times> world" where
  "embed_image_in_pdf e template_path image_path output_pdf_path w =
     (if \<not> exists_path w (parse_path template_path) then (False, w)
      else (case (read_text w (parse_path template_path), read_text w image_path) of
              (Some template, Some img) \<Rightarrow>
                (let w1 = record_call (PdfEmbed template img) w
                 in case fitz_insert e template img of
                      Completed pdf \<Rightarrow> (True, put output_pdf_path pdf w1)
                    | Failed f \<Rightarrow> (False, leave output_pdf_path f w1))
            | _ \<Rightarrow> (False, w)))"

text \<open>
  \<open>process_dot_code\<close>. Nothing catches what \<open>session_file.write_text\<close> or
  \<open>convert_dot_to_png\<close> raises.
\<close>

definition process_dot_code :: "env \<Rightarrow> pystr \<Rightarrow> path \<Rightarrow> world \<Rightarrow> (error + pystr) \<times> world" where
  "process_dot_code e dot_code session_file w =
     (let (written, w1) = write_text session_file dot_code w
      in if \<not> written then (Inl Uncaught, w1)
         else
          (let temp_png_path = joinpath TEMP_DIR (stem session_file @ str ''.png'');
               output_pdf_filename = str ''flowchart_'' @ stem session_file @ str ''.pdf'';
               output_pdf_path = joinpath OUTPUT_DIR output_pdf_filename
           in case convert_dot_to_png e dot_code temp_png_path w1 of
                (Inl raised, w2) \<Rightarrow> (Inl raised, w2)
              | (Inr converted, w2) \<Rightarrow>
                  if \<not> converted then (Inl RenderFailed, w2)
                  else (let (embedded, w3) =
                              embed_image_in_pdf e PDF_TEMPLATE_PATH temp_png_path output_pdf_path w2
                        in if \<not> embedded then (Inl EmbedFailed, w3)
                           else (let w4 = (if exists_path w3 temp_png_path
                                           then unlink temp_png_path w3 else w3)
                                 in (Inr output_pdf_filename, w4)))))"

text \<open>
  \<open>process_flowchart_request\<close>. \<open>not dot_code\<close> holds for \<open>None\<close> and for the empty string.
  \<open>session_file.read_text()\<close> raises when the file is missing, and nothing catches it.
\<close>

definition process_flowchart_request ::
  "env \<Rightarrow> pystr \<Rightarrow> path \<Rightarrow> bool \<Rightarrow> world \<Rightarrow> (error + pystr) \<times> world" where
  "process_flowchart_request e user_prompt session_file is_new w =
     (if is_new then
        (let dot_code = generate_initial_dot_code e user_prompt;
             w1 = record_call (GenerateInitial user_prompt) w
         in if dot_code = None \<or> dot_code = Some [] then (Inl GenerationFailed, w1)
            else process_dot_code e (the dot_code) session_file w1)
      else
        (case read_text w session_file of
           None \<Rightarrow> (Inl Uncaught, w)
         | Some current_dot_code \<Rightarrow>
             (let dot_code = modify_dot_code e current_dot_code user_prompt;
                  w1 = record_call (Modify current_dot_code user_prompt) w
              in if dot_code = None \<or> dot_code = Some [] then (Inl GenerationFailed, w1)
                 else process_dot_code e (the dot_code) session_file w1)))"

section \<open>The request handlers (app.py)\<close>

text \<open>
  The JSON body of a request, by the four keys the handlers look up: a field is \<open>None\<close>
  when the key is not in the body, and the values are strings.
\<close>

record request =
  user_email :: "pystr option"
  template_id :: "pystr option"
  session_id :: "pystr option"
  prompt :: "pystr option"

text \<open>A successful answer carries the session id and the name of the output document.\<close>

type_synonym response = "error + pystr \<times> pystr"

definition respond :: "pystr \<Rightarrow> (error + pystr) \<times> world \<Rightarrow> response \<times> world" where
  "respond sid r =
     (case r of
        (Inl error_msg, w) \<Rightarrow> (Inl error_msg, w)
      | (Inr output_filename, w) \<Rightarrow> (Inr (sid, output_filename), w))"

text \<open>
  The ids \<open>list_templates\<close> answers with: the stem of every entry of the template directory
  whose name matches \<open>*.dot\<close>. The display name it adds to each id is left out.
\<close>

definition matches_star_dot :: "pystr \<Rightarrow> bool" where
  "matches_star_dot n \<longleftrightarrow> 4 \<le> length n \<and> drop (length n - 4) n = str ''.dot''"

definition list_templates :: "world \<Rightarrow> pystr list" where
  "list_templates w =
     map (\<lambda>(p, c). stem p)
       (filter (\<lambda>(p, c). p \<noteq> [] \<and> butlast p = resolve w TEMPLATE_DIR \<and> matches_star_dot (last p))
          (files w))"

text \<open>
  The session file of a user and a session id, as the three handlers build it:
  \<open>SESSION_DIR / user_folder_name / f"{session_id}.dot"\<close>.
\<close>

definition session_path :: "pystr \<Rightarrow> pystr \<Rightarrow> path" where
  "session_path email sid =
     joinpath (joinpath SESSION_DIR (sanitize_email_for_folder email)) (sid @ str ''.dot'')"

definition handle_load_template_request :: "env \<Rightarrow> request \<Rightarrow> world \<Rightarrow> response \<times> world" where
  "handle_load_template_request e req w =
     (case (user_email req, template_id req) of
        (Some email, Some tid) \<Rightarrow>
          (let template_file = joinpath TEMPLATE_DIR (tid @ str ''.dot'')
           in if \<not> is_file w template_file then (Inl TemplateNotFound, w)
              else (case read_text w template_file of
                      None \<Rightarrow> (Inl TemplateUnreadable, w)
                    | Some dot_code \<Rightarrow>
                        (let user_folder_name = sanitize_email_for_folder email;
                             user_session_dir = joinpath SESSION_DIR user_folder_name;
                             w1 = mkdir user_session_dir w;
                             sid = uuid4 e;
                             session_file = joinpath user_session_dir (sid @ str ''.dot'')
                         in respond sid (process_dot_code e dot_code session_file w1))))
      | _ \<Rightarrow> (Inl ValidationError, w))"

definition handle_create_request :: "env \<Rightarrow> request \<Rightarrow> world \<Rightarrow> response \<times> world" where
  "handle_create_request e req w =
     (case (user_email req, prompt req) of
        (Some email, Some user_prompt) \<Rightarrow>
          (let user_folder_name = sanitize_email_for_folder email;
               user_session_dir = joinpath SESSION_DIR user_folder_name;
               w1 = mkdir user_session_dir w;
               sid = uuid4 e;
               session_file = joinpath user_session_dir (sid @ str ''.dot'')
           in respond sid (process_flowchart_request e user_prompt session_file True w1))
      | _ \<Rightarrow> (Inl ValidationError, w))"

definition handle_add_request :: "env \<Rightarrow> request \<Rightarrow> world \<Rightarrow> response \<times> world" where
  "handle_add_request e req w =
     (case (user_email req, session_id req, prompt req) of
        (Some email, Some sid, Some user_prompt) \<Rightarrow>
          (let user_folder_name = sanitize_email_for_folder email;
               session_file = joinpath (joinpath SESSION_DIR user_folder_name) (sid @ str ''.dot'')
           in if \<not> exists_path w session_file then (Inl SessionNotFound, w)
              else respond sid (process_flowchart_request e user_prompt session_file False w))
      | _ \<Rightarrow> (Inl ValidationError, w))"

text \<open>
  The document in the session file of a user and a session id, if the file is there. The
  file is found as the handlers find it, through \<open>session_path\<close>: for an id with a slash or
  \<open>..\<close> it is whatever file that path leads to.
\<close>

definition stored_document :: "world \<Rightarrow> pystr \<Rightarrow> pystr \<Rightarrow> content option" where
  "stored_document w email sid = read_text w (session_path email sid)"

text \<open>
  The session store of the specification reads by key: the document of a namespace and a
  session id is the file \<open><id>.dot\<close> in the folder of the namespace, the id taken as one name.
\<close>

definition session_store_read :: "world \<Rightarrow> pystr \<Rightarrow> pystr \<Rightarrow> content option" where
  "session_store_read w email sid =
     map_of (files w)
       (resolve w (joinpath SESSION_DIR (sanitize_email_for_folder email)) @ [sid @ str ''.dot''])"

section \<open>Names derived from a session id\<close>

text \<open>
  The stem of the session file of a session id, written from the id alone: the part of the
  id after its last slash, or \<open>.dot\<close> when that part is empty. \<open>stem_session_file\<close> below
  shows it is what \<open>session_file.stem\<close> evaluates to in every handler.
\<close>

definition session_stem :: "pystr \<Rightarrow> pystr" where
  "session_stem sid = (let l = last (split_slash sid) in if l = [] then str ''.dot'' else l)"

definition output_name :: "pystr \<Rightarrow> pystr" where
  "output_name sid = str ''flowchart_'' @ session_stem sid @ str ''.pdf''"

text \<open>
  The world after the rendering of an encodable text, when Graphviz completed: the session
  file and the image are written and the scratch file is gone.
\<close>

definition rendered :: "pystr \<Rightarrow> path \<Rightarrow> pystr \<Rightarrow> content \<Rightarrow> world \<Rightarrow> world" where
  "rendered code sf S png w =
     unlink [str ''temp_files'', S @ str ''.dot'']
       (put [str ''temp_files'', S @ str ''.png''] png
          (record_call (Graphviz code)
             (put [str ''temp_files'', S @ str ''.dot''] code (put sf code w))))"

section \<open>A concrete installation\<close>

text \<open>
  An installation in \<open>/srv/app\<close> with the PDF template in place, no flowchart template, one
  session of the user \<open>bob@example.com\<close> and Latin-1 as the encoding of the locale; and
  external tools that all succeed.
\<close>

definition bob_session :: pystr where
  "bob_session = str ''5d0c3f6e-8a41-4f7b-9c2d-3e1a7b6f0c55''"

definition example_world :: world where
  "example_world =
     \<lparr>cwd = [[slash], str ''srv'', str ''app''],
      files =
        [([[slash], str ''srv'', str ''app'', str ''Template.pdf''], str ''%PDF''),
         ([[slash], str ''srv'', str ''app'', str ''session_files'', str ''bob_example_com'',
           bob_session @ str ''.dot''],
          str ''digraph flowchart { Payroll; }'')],
      encodable = (\<lambda>c. c < 256),
      calls = []\<rparr>"

definition example_env :: env where
  "example_env =
     \<lparr>generate_initial_dot_code = (\<lambda>instruction. Some (str ''digraph flowchart { A; }'')),
      modify_dot_code = (\<lambda>current instruction. Some (str ''digraph flowchart { A -> B; }'')),
      dot_exe = (\<lambda>source. Completed (str ''PNG'')),
      fitz_insert = (\<lambda>template img. Completed (template @ img)),
      uuid4 = str ''9f1c2e4a-7b3d-4c5e-8a6f-0d1e2f3a4b5c''\<rparr>"

text \<open>The same tools with a generator that yields no text, or with no working Graphviz.\<close>

definition silent_env :: env where
  "silent_env = example_env\<lparr>generate_initial_dot_code := (\<lambda>instruction. None),
                            modify_dot_code := (\<lambda>current instruction. Some [])\<rparr>"

definition empty_text_env :: env where
  "empty_text_env = example_env\<lparr>generate_initial_dot_code := (\<lambda>instruction. Some []),
                                modify_dot_code := (\<lambda>current instruction. Some [])\<rparr>"

definition no_graphviz_env :: env where
  "no_graphviz_env = example_env\<lparr>dot_exe := (\<lambda>source. Failed None)\<rparr>"

text \<open>
  A generator whose text holds an arrow, U+2192, which Latin-1 cannot encode.
\<close>

definition arrow_text :: pystr where
  "arrow_text = str ''digraph flowchart { A '' @ [8594] @ str '' B; }''"

definition arrow_env :: env where
  "arrow_env = example_env\<lparr>generate_initial_dot_code := (\<lambda>instruction. Some arrow_text),
                           modify_dot_code := (\<lambda>current instruction. Some arrow_text)\<rparr>"

definition create_request :: request where
  "create_request =
     \<lparr>user_email = Some (str ''alice@example.com''), template_id = None, session_id = None,
      prompt = Some (str ''Start with step A'')\<rparr>"

definition add_request :: request where
  "add_request =
     \<lparr>user_email = Some (str ''bob@example.com''), template_id = None,
      session_id = Some bob_session, prompt = Some (str ''Add step B after A'')\<rparr>"

text \<open>
  The installation after eve has opened and rendered a session of her own and bob has
  rendered his once.
\<close>

definition eve_session :: pystr where
  "eve_session = str ''c2a7e9d4-1b6f-4e38-a5d0-7f3b9c8e2a11''"

definition two_user_world :: world where
  "two_user_world =
     example_world\<lparr>files := files example_world @
        [([[slash], str ''srv'', str ''app'', str ''session_files'', str ''eve_example_com'',
           eve_session @ str ''.dot''],
          str ''digraph flowchart { Mine; }''),
         ([[slash], str ''srv'', str ''app'', str ''outputs'',
           str ''flowchart_'' @ bob_session @ str ''.pdf''],
          str ''%PDF of yesterday''),
         ([[slash], str ''srv'', str ''app'', str ''outputs'',
           str ''flowchart_'' @ eve_session @ str ''.pdf''],
          str ''%PDF of eve'')]\<rparr>"

text \<open>An append of eve whose session id climbs into bob's folder.\<close>

definition cross_user_request :: request where
  "cross_user_request =
     \<lparr>user_email = Some (str ''eve@example.com''), template_id = None,
      session_id = Some (str ''../bob_example_com/'' @ bob_session),
      prompt = Some (str ''Add step B after A'')\<rparr>"

text \<open>A template id that climbs out of the template directory into bob's session.\<close>

definition traversal_request :: request where
  "traversal_request =
     \<lparr>user_email = Some (str ''eve@example.com''),
      template_id = Some (str ''../session_files/bob_example_com/'' @ bob_session),
      session_id = None, prompt = None\<rparr>"

section \<open>Properties of folder naming\<close>

lemma folder_char_underscore: "folder_char 95"
  by (simp add: folder_char_def)

lemma sanitize_map:
  "sanitize_email_for_folder x = map (\<lambda>c. if folder_char c then c else 95) x"
  by (induction x) (simp_all add: sanitize_email_for_folder_def str_def)

lemma folder_name_sanitize: "folder_name (sanitize_email_for_folder x)"
  by (induction x) (simp_all add: folder_name_def sanitize_map folder_char_underscore)

lemma sanitize_fixes_folder_name: "folder_name s \<Longrightarrow> sanitize_email_for_folder s = s"
  by (induction s) (simp_all add: folder_name_def sanitize_map)

section \<open>Paths: splitting, joining, stems\<close>

lemma split_slash_nonempty: "split_slash s \<noteq> []"
  by (induction s) (auto split: list.splits)

lemma split_slash_plain: "slash \<notin> set s \<Longrightarrow> split_slash s = [s]"
  by (induction s) auto

lemma split_slash_append:
  "slash \<notin> set t \<Longrightarrow>
   split_slash (s @ t) = butlast (split_slash s) @ [last (split_slash s) @ t]"
proof (induction s)
  case Nil
  then show ?case by (simp add: split_slash_plain)
next
  case (Cons c s)
  then show ?case
    using split_slash_nonempty [of s]
    by (cases "split_slash s") auto
qed

lemma last_split_slash_append:
  "slash \<notin> set t \<Longrightarrow> last (split_slash (s @ t)) = last (split_slash s) @ t"
  by (simp add: split_slash_append)

lemma no_slash_in_segments: "seg \<in> set (split_slash s) \<Longrightarrow> slash \<notin> set seg"
proof (induction s arbitrary: seg)
  case Nil
  then show ?case by simp
next
  case (Cons c s)
  then show ?case
    by (auto split: if_splits list.splits)
qed

lemma dirs:
  "TEMP_DIR = [str ''temp_files'']"
  "SESSION_DIR = [str ''session_files'']"
  "OUTPUT_DIR = [str ''outputs'']"
  "TEMPLATE_DIR = [str ''flowchart_templates'']"
  by code_simp+

lemma root_of_plain: "slash \<notin> set s \<Longrightarrow> root_of s = []"
  by (cases s) (auto simp: root_of_def)

lemma components_plain:
  "slash \<notin> set s \<Longrightarrow> components s = (if s = [] \<or> s = [dot] then [] else [s])"
  by (simp add: components_def split_slash_plain)

lemma joinpath_plain:
  "slash \<notin> set s \<Longrightarrow> joinpath p s = p @ (if s = [] \<or> s = [dot] then [] else [s])"
  by (simp add: joinpath_def root_of_plain components_plain)

lemma foldl_resolve_step_plain:
  "dotdot \<notin> set ps \<Longrightarrow> foldl resolve_step acc ps = acc @ ps"
  by (induction ps arbitrary: acc) auto

lemma rfind_dot_suffix:
  "dot \<notin> set t \<Longrightarrow> rfind_dot (s @ dot # t) = Some (length s)"
proof -
  assume "dot \<notin> set t"
  then have tw: "takeWhile (\<lambda>c. c \<noteq> dot) (rev t) = rev t"
    by auto
  show ?thesis
    by (simp add: rfind_dot_def takeWhile_tail tw)
qed

section \<open>The store: reading after writing\<close>

lemma cwd_put: "cwd (put p c w) = cwd w"
  by (simp add: put_def)
lemma cwd_unlink: "cwd (unlink p w) = cwd w"
  by (simp add: unlink_def)
lemma cwd_record_call: "cwd (record_call c w) = cwd w"
  by (simp add: record_call_def)
lemma cwd_leave: "cwd (leave p f w) = cwd w"
  by (cases f) (simp_all add: leave_def cwd_put)

lemma resolve_cong: "cwd w' = cwd w \<Longrightarrow> resolve w' p = resolve w p"
  by (simp add: resolve_def)

lemma resolve_put: "resolve (put p c w) q = resolve w q"
  by (rule resolve_cong) (rule cwd_put)
lemma resolve_unlink: "resolve (unlink p w) q = resolve w q"
  by (rule resolve_cong) (rule cwd_unlink)
lemma resolve_record_call: "resolve (record_call c w) q = resolve w q"
  by (rule resolve_cong) (rule cwd_record_call)
lemma resolve_leave: "resolve (leave p f w) q = resolve w q"
  by (rule resolve_cong) (rule cwd_leave)

lemma read_put:
  "read_text (put p c w) q = (if resolve w q = resolve w p then Some c else read_text w q)"
  by (simp add: read_text_def resolve_put) (simp add: put_def update_conv')

lemma read_unlink:
  "read_text (unlink p w) q = (if resolve w q = resolve w p then None else read_text w q)"
  by (simp add: read_text_def resolve_unlink) (simp add: unlink_def delete_conv')

lemma read_record_call: "read_text (record_call c w) q = read_text w q"
  by (simp add: read_text_def resolve_record_call) (simp add: record_call_def)

lemma read_leave:
  "read_text (leave p f w) q = (if resolve w q = resolve w p \<and> f \<noteq> None then f else read_text w q)"
  by (cases f) (simp_all add: leave_def read_put)

lemma files_record_call: "files (record_call c w) = files w"
  by (simp add: record_call_def)

lemma encodable_put: "encodable (put p c w) = encodable w"
  by (simp add: put_def)
lemma encodable_unlink: "encodable (unlink p w) = encodable w"
  by (simp add: unlink_def)
lemma encodable_record_call: "encodable (record_call c w) = encodable w"
  by (simp add: record_call_def)
lemma encodable_leave: "encodable (leave p f w) = encodable w"
  by (cases f) (simp_all add: leave_def encodable_put)

lemma text_encodable_put: "text_encodable (put p c w) t = text_encodable w t"
  by (simp add: text_encodable_def encodable_put)
lemma text_encodable_record_call: "text_encodable (record_call c w) t = text_encodable w t"
  by (simp add: text_encodable_def encodable_record_call)

lemma write_text_encodable: "text_encodable w c \<Longrightarrow> write_text p c w = (True, put p c w)"
  by (simp add: write_text_def)

lemma write_text_raises: "\<not> text_encodable w c \<Longrightarrow> write_text p c w = (False, put p [] w)"
  by (simp add: write_text_def)

lemmas store_simps =
  cwd_put cwd_unlink cwd_record_call cwd_leave
  encodable_put encodable_unlink encodable_record_call encodable_leave
  text_encodable_put text_encodable_record_call
  resolve_put resolve_unlink resolve_record_call resolve_leave
  read_put read_unlink read_record_call read_leave exists_path_def is_file_def

lemma lits_split:
  "str ''.png'' = dot # str ''png''" "str ''.dot'' = dot # str ''dot''"
  "str ''.pdf'' = dot # str ''pdf''"
  by (simp_all add: str_def)

lemma lits_plain:
  "dot \<notin> set (str ''png'')" "slash \<notin> set (str ''.png'')"
  "dot \<notin> set (str ''dot'')" "slash \<notin> set (str ''.dot'')"
  "slash \<notin> set (str ''.pdf'')"
  "slash \<notin> set (str ''flowchart_'')"
  "slash \<notin> set (str ''Template.pdf'')"
  by (simp_all add: str_def)

lemma not_absolute_dirs:
  "\<not> is_absolute (str ''temp_files'' # p)"
  "\<not> is_absolute (str ''session_files'' # p)"
  "\<not> is_absolute (str ''outputs'' # p)"
  "\<not> is_absolute (str ''flowchart_templates'' # p)"
  "\<not> is_absolute [str ''Template.pdf'']"
  by (simp_all add: is_absolute_def str_def)

lemma resolve_relative:
  "\<not> is_absolute p \<Longrightarrow> dotdot \<notin> set p \<Longrightarrow> resolve w p = cwd w @ p"
  by (simp add: resolve_def foldl_resolve_step_plain)

lemma stem_suffixed:
  assumes "S \<noteq> []" "dot \<notin> set t" "t \<noteq> []" "\<not> is_absolute [d, S @ dot # t]"
  shows "stem [d, S @ dot # t] = S"
  using assms by (simp add: stem_def name_def rfind_dot_suffix Let_def)

lemma len_lits:
  "length (str ''.png'') = 4" "length (str ''.dot'') = 4" "length (str ''.pdf'') = 4"
  by (simp_all add: str_def)

lemma long_component:
  assumes "4 \<le> length x"
  shows "x \<noteq> []" "x \<noteq> [dot]" "x \<noteq> dotdot" "dotdot \<noteq> x"
  using assms by auto

lemma suffixed_component:
  assumes "slash \<notin> set x" "4 \<le> length x"
  shows "joinpath p x = p @ [x]"
  using assms long_component [of x] by (simp add: joinpath_plain)

lemma temp_png_path:
  assumes "slash \<notin> set S"
  shows "joinpath TEMP_DIR (S @ str ''.png'') = [str ''temp_files'', S @ str ''.png'']"
  using assms by (simp add: suffixed_component lits_plain dirs len_lits)

lemma temp_dot_path:
  assumes "slash \<notin> set S"
  shows "joinpath TEMP_DIR (S @ str ''.dot'') = [str ''temp_files'', S @ str ''.dot'']"
  using assms by (simp add: suffixed_component lits_plain dirs len_lits)

lemma output_pdf_path:
  assumes "slash \<notin> set S"
  shows "joinpath OUTPUT_DIR (str ''flowchart_'' @ S @ str ''.pdf'')
         = [str ''outputs'', str ''flowchart_'' @ S @ str ''.pdf'']"
  using assms by (simp add: suffixed_component lits_plain dirs len_lits)

lemma stem_temp_png:
  assumes "S \<noteq> []"
  shows "stem [str ''temp_files'', S @ str ''.png''] = S"
proof -
  have "stem [str ''temp_files'', S @ dot # str ''png''] = S"
    by (rule stem_suffixed) (simp_all add: assms not_absolute_dirs, simp_all add: str_def)
  then show ?thesis by (simp add: lits_split)
qed

lemma template_path: "parse_path PDF_TEMPLATE_PATH = [str ''Template.pdf'']"
  by code_simp

lemma resolve_two:
  assumes "\<not> is_absolute [d, x]" "d \<noteq> dotdot" "x \<noteq> dotdot"
  shows "resolve w [d, x] = cwd w @ [d, x]"
  using assms by (simp add: resolve_def)

lemma dir_neqs:
  "str ''temp_files'' \<noteq> dotdot" "str ''outputs'' \<noteq> dotdot" "str ''session_files'' \<noteq> dotdot"
  "str ''temp_files'' \<noteq> str ''outputs''" "str ''temp_files'' \<noteq> str ''session_files''"
  "str ''outputs'' \<noteq> str ''session_files''"
  "str ''.png'' \<noteq> str ''.dot''" "str ''.dot'' \<noteq> str ''.png''"
  "str ''outputs'' \<noteq> str ''temp_files''" "str ''session_files'' \<noteq> str ''temp_files''"
  "str ''session_files'' \<noteq> str ''outputs''"
  by (simp_all add: str_def)

lemma resolve_temp_png:
  "resolve w [str ''temp_files'', S @ str ''.png''] = cwd w @ [str ''temp_files'', S @ str ''.png'']"
  by (rule resolve_two) (simp_all add: not_absolute_dirs dir_neqs long_component len_lits)

lemma resolve_temp_dot:
  "resolve w [str ''temp_files'', S @ str ''.dot''] = cwd w @ [str ''temp_files'', S @ str ''.dot'']"
  by (rule resolve_two) (simp_all add: not_absolute_dirs dir_neqs long_component len_lits)

lemma resolve_output_pdf:
  "resolve w [str ''outputs'', str ''flowchart_'' @ S @ str ''.pdf'']
   = cwd w @ [str ''outputs'', str ''flowchart_'' @ S @ str ''.pdf'']"
  by (rule resolve_two) (simp_all add: not_absolute_dirs dir_neqs long_component len_lits)

lemma resolve_template: "resolve w [str ''Template.pdf''] = cwd w @ [str ''Template.pdf'']"
  by (simp add: resolve_def is_absolute_def str_def)

section \<open>Rendering a persisted document\<close>

lemmas layout =
  temp_png_path temp_dot_path output_pdf_path stem_temp_png template_path
  resolve_temp_png resolve_temp_dot resolve_output_pdf resolve_template

lemma convert_completed:
  assumes "text_encodable w code" "dot_exe e code = Completed png" "S \<noteq> []" "slash \<notin> set S"
  shows "convert_dot_to_png e code [str ''temp_files'', S @ str ''.png''] w =
         (Inr True, unlink [str ''temp_files'', S @ str ''.dot'']
                  (put [str ''temp_files'', S @ str ''.png''] png
                     (record_call (Graphviz code)
                        (put [str ''temp_files'', S @ str ''.dot''] code w))))"
  using assms
  by (simp add: convert_dot_to_png_def write_text_encodable Let_def layout store_simps dir_neqs)

lemma convert_failed:
  assumes "text_encodable w code" "dot_exe e code = Failed f" "S \<noteq> []" "slash \<notin> set S"
  shows "convert_dot_to_png e code [str ''temp_files'', S @ str ''.png''] w =
         (Inr False, unlink [str ''temp_files'', S @ str ''.dot'']
                  (leave [str ''temp_files'', S @ str ''.png''] f
                     (record_call (Graphviz code)
                        (put [str ''temp_files'', S @ str ''.dot''] code w))))"
  using assms
  by (simp add: convert_dot_to_png_def write_text_encodable Let_def layout store_simps dir_neqs)

lemma embed_cases:
  "embed_image_in_pdf e PDF_TEMPLATE_PATH png_path out_path w =
     (case read_text w [str ''Template.pdf''] of
        None \<Rightarrow> (False, w)
      | Some template \<Rightarrow>
          (case read_text w png_path of
             None \<Rightarrow> (False, w)
           | Some img \<Rightarrow>
               (case fitz_insert e template img of
                  Completed pdf \<Rightarrow> (True, put out_path pdf (record_call (PdfEmbed template img) w))
                | Failed f \<Rightarrow> (False, leave out_path f (record_call (PdfEmbed template img) w)))))"
  by (simp add: embed_image_in_pdf_def Let_def layout store_simps split: option.splits outcome.splits)

lemma read_rendered_png:
  "read_text (rendered code sf S png w) [str ''temp_files'', S @ str ''.png''] = Some png"
  by (simp add: rendered_def store_simps layout dir_neqs)

lemma process_dot_code_raises:
  assumes "\<not> text_encodable w code"
  shows "process_dot_code e code sf w = (Inl Uncaught, put sf [] w)"
  using assms by (simp add: process_dot_code_def write_text_raises)

lemma process_dot_code_render_failed:
  assumes "text_encodable w code" "dot_exe e code = Failed f"
    and "stem sf = S" "S \<noteq> []" "slash \<notin> set S"
  shows "process_dot_code e code sf w =
           (Inl RenderFailed,
            unlink [str ''temp_files'', S @ str ''.dot'']
              (leave [str ''temp_files'', S @ str ''.png''] f
                 (record_call (Graphviz code)
                    (put [str ''temp_files'', S @ str ''.dot''] code (put sf code w)))))"
  using assms
  by (simp add: process_dot_code_def write_text_encodable Let_def layout convert_failed store_simps)

lemma process_dot_code_completed:
  assumes "text_encodable w code" "dot_exe e code = Completed png"
    and "stem sf = S" "S \<noteq> []" "slash \<notin> set S"
  shows "process_dot_code e code sf w =
           (case read_text (rendered code sf S png w) [str ''Template.pdf''] of
              None \<Rightarrow> (Inl EmbedFailed, rendered code sf S png w)
            | Some template \<Rightarrow>
                (case fitz_insert e template png of
                   Completed pdf \<Rightarrow>
                     (Inr (str ''flowchart_'' @ S @ str ''.pdf''),
                      unlink [str ''temp_files'', S @ str ''.png'']
                        (put [str ''outputs'', str ''flowchart_'' @ S @ str ''.pdf''] pdf
                           (record_call (PdfEmbed template png) (rendered code sf S png w))))
                 | Failed f \<Rightarrow>
                     (Inl EmbedFailed,
                      leave [str ''outputs'', str ''flowchart_'' @ S @ str ''.pdf''] f
                        (record_call (PdfEmbed template png) (rendered code sf S png w)))))"
proof -
  have conv: "convert_dot_to_png e code [str ''temp_files'', S @ str ''.png''] (put sf code w)
                = (Inr True, rendered code sf S png w)"
    using assms by (simp add: convert_completed rendered_def store_simps)
  show ?thesis
    using assms
    by (simp add: process_dot_code_def write_text_encodable Let_def layout conv embed_cases
        read_rendered_png store_simps dir_neqs split: option.splits outcome.splits)
qed

lemma render_failed:
  assumes "text_encodable w code" "dot_exe e code = Failed f"
  shows "fst (process_dot_code e code sf w) = Inl RenderFailed"
  using assms
  by (simp add: process_dot_code_def write_text_encodable convert_dot_to_png_def Let_def store_simps
      split: prod.splits)

lemma process_dot_code_persists:
  assumes enc: "text_encodable w code"
    and S: "stem sf = S" "S \<noteq> []" "slash \<notin> set S"
    and d1: "resolve w sf \<noteq> cwd w @ [str ''temp_files'', S @ str ''.png'']"
    and d2: "resolve w sf \<noteq> cwd w @ [str ''temp_files'', S @ str ''.dot'']"
    and d3: "resolve w sf \<noteq> cwd w @ [str ''outputs'', str ''flowchart_'' @ S @ str ''.pdf'']"
  shows "read_text (snd (process_dot_code e code sf w)) sf = Some code"
proof (cases "dot_exe e code")
  case (Completed png)
  show ?thesis
    using d1 d2 d3
    by (simp add: process_dot_code_completed [OF enc Completed S] rendered_def layout store_simps
        split: option.splits outcome.splits)
next
  case (Failed f)
  show ?thesis
    using d1 d2 d3
    by (simp add: process_dot_code_render_failed [OF enc Failed S] layout store_simps)
qed

text \<open>Whatever the outcome, only four files can differ afterwards.\<close>

lemma process_dot_code_frame:
  assumes S: "stem sf = S" "S \<noteq> []" "slash \<notin> set S"
    and q: "resolve w q \<noteq> resolve w sf"
      "resolve w q \<noteq> cwd w @ [str ''temp_files'', S @ str ''.dot'']"
      "resolve w q \<noteq> cwd w @ [str ''temp_files'', S @ str ''.png'']"
      "resolve w q \<noteq> cwd w @ [str ''outputs'', str ''flowchart_'' @ S @ str ''.pdf'']"
  shows "read_text (snd (process_dot_code e code sf w)) q = read_text w q"
proof (cases "text_encodable w code")
  case False
  then show ?thesis
    using q by (simp add: process_dot_code_raises store_simps)
next
  case enc: True
  show ?thesis
  proof (cases "dot_exe e code")
    case (Completed png)
    show ?thesis
      using q
      by (simp add: process_dot_code_completed [OF enc Completed S] rendered_def layout store_simps
          split: option.splits outcome.splits)
  next
    case (Failed f)
    show ?thesis
      using q
      by (simp add: process_dot_code_render_failed [OF enc Failed S] layout store_simps)
  qed
qed

text \<open>A successful answer: what was rendered, and where the result lies.\<close>

lemma process_dot_code_success:
  assumes S: "stem sf = S" "S \<noteq> []" "slash \<notin> set S"
    and ok: "process_dot_code e code sf w = (Inr out, w')"
  shows "text_encodable w code
         \<and> out = str ''flowchart_'' @ S @ str ''.pdf''
         \<and> (\<exists>png template pdf.
               dot_exe e code = Completed png
               \<and> fitz_insert e template png = Completed pdf
               \<and> read_text w' (joinpath OUTPUT_DIR out) = Some pdf)
         \<and> is_file w' (joinpath OUTPUT_DIR out)
         \<and> \<not> exists_path w' (joinpath TEMP_DIR (S @ str ''.png''))"
proof (cases "text_encodable w code")
  case False
  with ok show ?thesis by (simp add: process_dot_code_raises)
next
  case enc: True
  show ?thesis
  proof (cases "dot_exe e code")
    case (Failed f)
    with ok enc S show ?thesis by (simp add: process_dot_code_render_failed)
  next
    case (Completed png)
    show ?thesis
      using ok S enc Completed
      by (auto simp: process_dot_code_completed [OF enc Completed S] layout store_simps dir_neqs
          split: option.splits outcome.splits)
  qed
qed

lemma convert_dot_to_png_errors:
  "convert_dot_to_png e code png_path w = (Inl err, w') \<Longrightarrow> err = Uncaught"
  by (auto simp: convert_dot_to_png_def Let_def split: prod.splits if_splits)

lemma process_dot_code_errors:
  "fst (process_dot_code e code sf w) = Inl err \<Longrightarrow>
   err = RenderFailed \<or> err = EmbedFailed \<or> err = Uncaught"
  by (auto simp: process_dot_code_def Let_def dest: convert_dot_to_png_errors
      split: prod.splits if_splits sum.splits)

lemma process_dot_code_returned:
  assumes "fst (process_dot_code e code sf w) \<noteq> Inl Uncaught"
  shows "text_encodable w code"
  using assms by (cases "text_encodable w code") (simp_all add: process_dot_code_raises)

section \<open>Session files\<close>

lemma folder_name_chars:
  assumes "folder_name ns"
  shows "slash \<notin> set ns" "dot \<notin> set ns"
  using assms by (auto simp: folder_name_def list_all_iff folder_char_def)

lemma folder_name_component:
  assumes "folder_name ns"
  shows "components ns = (if ns = [] then [] else [ns])" "root_of ns = []" "ns \<noteq> dotdot"
  using folder_name_chars [OF assms] by (auto simp: components_plain root_of_plain)

lemma user_session_dir:
  "joinpath SESSION_DIR (sanitize_email_for_folder email) =
     str ''session_files'' # (if sanitize_email_for_folder email = [] then [] else [sanitize_email_for_folder email])"
  using folder_name_component [OF folder_name_sanitize, of email]
  by (simp add: joinpath_def dirs)

lemma last_split_drop_root:
  "last (split_slash (drop (length (root_of s)) s)) = last (split_slash s)"
proof (cases s)
  case Nil
  then show ?thesis by (simp add: root_of_def)
next
  case (Cons c r)
  show ?thesis
  proof (cases r)
    case Nil
    with Cons show ?thesis by (simp add: root_of_def)
  next
    case (Cons c' r')
    with \<open>s = c # r\<close> show ?thesis
      using split_slash_nonempty [of r'] split_slash_nonempty [of r]
      by (auto simp: root_of_def)
  qed
qed

lemma last_segment_dot:
  "last (split_slash (sid @ str ''.dot'')) = last (split_slash sid) @ str ''.dot''"
  by (simp add: last_split_slash_append lits_plain)

lemma last_filter_kept:
  "xs \<noteq> [] \<Longrightarrow> P (last xs) \<Longrightarrow> last (filter P xs) = last xs"
  by (induction xs rule: rev_induct) simp_all

lemma last_components_dot:
  assumes "last (split_slash s) = l @ str ''.dot''"
  shows "components s \<noteq> [] \<and> last (components s) = l @ str ''.dot''"
proof -
  let ?ok = "\<lambda>x. x \<noteq> [] \<and> x \<noteq> [dot]"
  have ok: "?ok (last (split_slash s))"
    using long_component [of "l @ str ''.dot''"] by (simp add: assms len_lits)
  have ne: "split_slash s \<noteq> []" by (rule split_slash_nonempty)
  have "last (split_slash s) \<in> set (filter ?ok (split_slash s))"
    using ok ne by simp
  then have "filter ?ok (split_slash s) \<noteq> []"
    by (metis empty_iff empty_set)
  moreover have "last (filter ?ok (split_slash s)) = last (split_slash s)"
    using ne ok by (rule last_filter_kept)
  ultimately show ?thesis
    by (simp add: components_def assms)
qed

lemma joinpath_relative: "root_of s = [] \<Longrightarrow> joinpath p s = p @ components s"
  by (simp add: joinpath_def)

lemma joinpath_rooted: "root_of s \<noteq> [] \<Longrightarrow> joinpath p s = parse_path s"
  by (simp add: joinpath_def)

lemma name_session_file:
  "name (session_path email sid) = last (split_slash sid) @ str ''.dot''"
proof -
  let ?s = "sid @ str ''.dot''"
  let ?seg = "last (split_slash sid) @ str ''.dot''"
  have rel: "components ?s \<noteq> [] \<and> last (components ?s) = ?seg"
    by (rule last_components_dot) (rule last_segment_dot)
  have abs: "components (drop (length (root_of ?s)) ?s) \<noteq> []
             \<and> last (components (drop (length (root_of ?s)) ?s)) = ?seg"
    by (rule last_components_dot) (simp only: last_split_drop_root last_segment_dot)
  have root: "root_of ?s = [] \<or> root_of ?s = [slash] \<or> root_of ?s = [slash, slash]"
    by (simp add: root_of_def)
  show ?thesis
  proof (cases "root_of ?s = []")
    case True
    then show ?thesis
      using rel
      unfolding session_path_def user_session_dir
      by (simp add: joinpath_relative name_def not_absolute_dirs Let_def)
  next
    case False
    then show ?thesis
      using abs root
      unfolding session_path_def
      by (auto simp: joinpath_rooted parse_path_def name_def is_absolute_def Let_def)
  qed
qed

lemma stem_session_file: "stem (session_path email sid) = session_stem sid"
proof -
  have "rfind_dot (last (split_slash sid) @ dot # str ''dot'') = Some (length (last (split_slash sid)))"
    by (rule rfind_dot_suffix) (simp add: lits_plain)
  then show ?thesis
    by (simp add: stem_def name_session_file session_stem_def Let_def lits_split)
       (simp add: str_def)
qed

lemma session_stem_plain: "slash \<notin> set sid \<Longrightarrow> session_stem sid = (if sid = [] then str ''.dot'' else sid)"
  by (simp add: session_stem_def split_slash_plain)

lemma session_stem_component: "session_stem sid \<noteq> []" "slash \<notin> set (session_stem sid)"
proof -
  show "session_stem sid \<noteq> []"
    by (simp add: session_stem_def Let_def str_def)
  have "last (split_slash sid) \<in> set (split_slash sid)"
    using split_slash_nonempty [of sid] by simp
  then have "slash \<notin> set (last (split_slash sid))"
    by (rule no_slash_in_segments)
  then show "slash \<notin> set (session_stem sid)"
    by (simp add: session_stem_def Let_def lits_plain)
qed

lemma session_path_plain:
  assumes "slash \<notin> set sid"
  shows "session_path email sid =
           str ''session_files'' #
           (if sanitize_email_for_folder email = [] then [] else [sanitize_email_for_folder email]) @
           [sid @ str ''.dot'']"
  using assms by (simp add: session_path_def user_session_dir suffixed_component lits_plain len_lits)

lemma resolve_session_path:
  assumes "slash \<notin> set sid"
  shows "resolve w (session_path email sid) = cwd w @ session_path email sid"
proof (rule resolve_relative)
  show "\<not> is_absolute (session_path email sid)"
    by (simp add: session_path_plain [OF assms] not_absolute_dirs)
  show "dotdot \<notin> set (session_path email sid)"
    using folder_name_component(3) [OF folder_name_sanitize, of email]
    by (simp add: session_path_plain [OF assms] long_component len_lits) (simp add: str_def)
qed

lemma stored_after_process_dot_code:
  assumes "slash \<notin> set sid" and enc: "text_encodable w code"
  shows "stored_document (snd (process_dot_code e code (session_path email sid) w)) email sid = Some code"
  unfolding stored_document_def
proof (rule process_dot_code_persists [where S = "session_stem sid"])
  show "text_encodable w code" by (rule enc)
  show "stem (session_path email sid) = session_stem sid" by (rule stem_session_file)
  show "session_stem sid \<noteq> []" "slash \<notin> set (session_stem sid)"
    by (rule session_stem_component)+
  show "resolve w (session_path email sid) \<noteq> cwd w @ [str ''temp_files'', session_stem sid @ str ''.png'']"
    by (simp only: resolve_session_path [OF assms(1)]) (simp add: session_path_plain [OF assms(1)] dir_neqs)
  show "resolve w (session_path email sid) \<noteq> cwd w @ [str ''temp_files'', session_stem sid @ str ''.dot'']"
    by (simp only: resolve_session_path [OF assms(1)]) (simp add: session_path_plain [OF assms(1)] dir_neqs)
  show "resolve w (session_path email sid) \<noteq>
          cwd w @ [str ''outputs'', str ''flowchart_'' @ session_stem sid @ str ''.pdf'']"
    by (simp only: resolve_session_path [OF assms(1)]) (simp add: session_path_plain [OF assms(1)] dir_neqs)
qed

lemma handle_add_request_session:
  assumes "user_email req = Some email" "session_id req = Some sid" "prompt req = Some p"
  shows "handle_add_request e req w =
           (if \<not> exists_path w (session_path email sid) then (Inl SessionNotFound, w)
            else respond sid (process_flowchart_request e p (session_path email sid) False w))"
  using assms by (simp add: handle_add_request_def session_path_def Let_def)

lemma handle_create_request_session:
  assumes "user_email req = Some email" "prompt req = Some p"
  shows "handle_create_request e req w =
           respond (uuid4 e) (process_flowchart_request e p (session_path email (uuid4 e)) True w)"
  using assms by (simp add: handle_create_request_def session_path_def Let_def mkdir_def)

lemma respond_fst_snd: "respond sid r = (case fst r of Inl x \<Rightarrow> Inl x | Inr out \<Rightarrow> Inr (sid, out), snd r)"
  by (cases r) (auto simp: respond_def split: sum.splits)

lemma handle_load_template_request_session:
  assumes "user_email req = Some email" "template_id req = Some tid"
  shows "handle_load_template_request e req w =
           (case read_text w (joinpath TEMPLATE_DIR (tid @ str ''.dot'')) of
              None \<Rightarrow> (Inl TemplateNotFound, w)
            | Some dot_code \<Rightarrow>
                respond (uuid4 e) (process_dot_code e dot_code (session_path email (uuid4 e)) w))"
  using assms
  by (simp add: handle_load_template_request_def session_path_def Let_def mkdir_def is_file_def
      split: option.splits)

lemma respond_success:
  "respond sid r = (Inr (s, out), w') \<longleftrightarrow> s = sid \<and> r = (Inr out, w')"
  by (cases r) (auto simp: respond_def split: sum.splits)

lemma process_flowchart_request_writes:
  assumes "process_flowchart_request e p sf is_new w = (r, w')"
    and "r \<noteq> Inl GenerationFailed" "r \<noteq> Inl Uncaught"
  shows "\<exists>code w1. code \<noteq> [] \<and> files w1 = files w \<and> process_dot_code e code sf w1 = (r, w')
           \<and> (is_new \<longrightarrow> generate_initial_dot_code e p = Some code)"
proof (cases is_new)
  case True
  with assms obtain code where "generate_initial_dot_code e p = Some code" "code \<noteq> []"
    "process_dot_code e code sf (record_call (GenerateInitial p) w) = (r, w')"
    by (auto simp: process_flowchart_request_def Let_def split: if_splits)
  then show ?thesis
    using files_record_call by blast
next
  case False
  with assms obtain cur code where "modify_dot_code e cur p = Some code" "code \<noteq> []"
    "process_dot_code e code sf (record_call (Modify cur p) w) = (r, w')"
    by (auto simp: process_flowchart_request_def Let_def split: if_splits option.splits)
  then show ?thesis
    using files_record_call False by blast
qed

lemma process_flowchart_request_success:
  assumes "process_flowchart_request e p sf is_new w = (Inr out, w')"
  shows "\<exists>code w1. code \<noteq> [] \<and> process_dot_code e code sf w1 = (Inr out, w')
           \<and> (is_new \<longrightarrow> generate_initial_dot_code e p = Some code)"
  using process_flowchart_request_writes [OF assms] by blast

lemma session_success:
  assumes "process_dot_code e code (session_path email sid) w = (Inr out, w')"
  shows "out = output_name sid \<and> is_file w' (joinpath OUTPUT_DIR (output_name sid))"
  using process_dot_code_success [OF stem_session_file session_stem_component assms]
  by (auto simp: output_name_def)

lemma append_errors:
  assumes "read_text w sf \<noteq> None"
  shows "fst (process_flowchart_request e p sf False w) \<noteq> Inl SessionNotFound"
proof
  assume a: "fst (process_flowchart_request e p sf False w) = Inl SessionNotFound"
  from assms obtain cur where cur: "read_text w sf = Some cur" by auto
  show False
  proof (cases "modify_dot_code e cur p = None \<or> modify_dot_code e cur p = Some []")
    case True
    with a cur show False
      by (simp add: process_flowchart_request_def Let_def)
  next
    case False
    with a cur process_dot_code_errors [of e "the (modify_dot_code e cur p)" sf
        "record_call (Modify cur p) w" SessionNotFound]
    show False
      by (simp add: process_flowchart_request_def Let_def)
  qed
qed

section \<open>What a request leaves in the store\<close>

lemma output_neqs:
  "str ''session_files'' \<noteq> str ''Template.pdf''" "str ''temp_files'' \<noteq> str ''Template.pdf''"
  "str ''outputs'' \<noteq> str ''Template.pdf''" "str ''outputs'' \<noteq> [slash]"
  "str ''outputs'' \<noteq> [slash, slash]" "str ''outputs'' \<noteq> dotdot"
  by (simp_all add: str_def)

lemma resolve_output_entry:
  "resolve w [str ''outputs'', n] = (if n = dotdot then cwd w else cwd w @ [str ''outputs'', n])"
  by (simp add: resolve_def not_absolute_dirs output_neqs)

lemma read_record_world:
  "read_text (record_call c w) = read_text w"
  by (rule ext) (rule read_record_call)

lemma session_key_not_outputs:
  assumes "slash \<notin> set sid"
  shows "resolve w (session_path email sid) \<noteq> cwd w @ [str ''outputs'', n]"
    "resolve w (session_path email sid) \<noteq> cwd w"
    "resolve w (session_path email sid) \<noteq> cwd w @ [str ''Template.pdf'']"
    "cwd w @ [str ''outputs'', n] \<noteq> resolve w (session_path email sid)"
    "cwd w \<noteq> resolve w (session_path email sid)"
    "cwd w @ [str ''Template.pdf''] \<noteq> resolve w (session_path email sid)"
  by (simp_all only: resolve_session_path [OF assms])
     (simp_all add: session_path_plain [OF assms] dir_neqs output_neqs)

lemma session_outputs:
  assumes plain: "slash \<notin> set sid"
    and ok: "process_dot_code e code (session_path email sid) w = (Inr out, w')"
  shows "\<exists>png template pdf.
           dot_exe e code = Completed png
           \<and> read_text w (parse_path PDF_TEMPLATE_PATH) = Some template
           \<and> fitz_insert e template png = Completed pdf
           \<and> (\<forall>n. read_text w' (OUTPUT_DIR @ [n]) =
                    (if n = output_name sid then Some pdf else read_text w (OUTPUT_DIR @ [n])))"
proof -
  let ?sf = "session_path email sid"
  let ?S = "session_stem sid"
  note S = stem_session_file [of email sid] session_stem_component [of sid]
  have enc: "text_encodable w code"
    using ok by (intro process_dot_code_returned [of e code ?sf w]) simp
  show ?thesis
  proof (cases "dot_exe e code")
    case (Failed f)
    with ok enc S show ?thesis by (simp add: process_dot_code_render_failed)
  next
    case (Completed png)
    have tpl: "read_text (rendered code ?sf ?S png w) [str ''Template.pdf''] = read_text w [str ''Template.pdf'']"
      using session_key_not_outputs [OF plain, where w = w and email = email]
      by (simp add: rendered_def layout store_simps)
    have keep: "read_text (rendered code ?sf ?S png w) [str ''outputs'', n] = read_text w [str ''outputs'', n]" for n
      using session_key_not_outputs [OF plain, where w = w and email = email]
      by (simp add: rendered_def layout store_simps resolve_output_entry dir_neqs)
    show ?thesis
      using ok Completed
      by (auto simp: process_dot_code_completed [OF enc Completed S] tpl keep template_path dirs
          output_name_def layout store_simps resolve_output_entry dir_neqs
          split: option.splits outcome.splits)
  qed
qed

lemma session_frame:
  assumes "resolve w q \<noteq> resolve w (session_path email sid)"
    "resolve w q \<noteq> resolve w (joinpath TEMP_DIR (session_stem sid @ str ''.dot''))"
    "resolve w q \<noteq> resolve w (joinpath TEMP_DIR (session_stem sid @ str ''.png''))"
    "resolve w q \<noteq> resolve w (joinpath OUTPUT_DIR (output_name sid))"
  shows "read_text (snd (process_dot_code e code (session_path email sid) w)) q = read_text w q"
  using assms session_stem_component [of sid]
  by (intro process_dot_code_frame [where S = "session_stem sid"])
     (simp_all add: stem_session_file output_name_def layout)

lemma handler_worlds:
  "cwd (record_call c w) = cwd w" "read_text (record_call c w) = read_text w"
  "resolve (record_call c w) = resolve w"
  by (simp_all add: cwd_record_call read_record_world fun_eq_iff resolve_record_call)

lemma append_success:
  assumes "user_email req = Some email" "session_id req = Some sid" "prompt req = Some p"
    and "handle_add_request e req w = (Inr (s, out), w')"
  shows "s = sid \<and> (\<exists>cur code.
           stored_document w email sid = Some cur \<and> modify_dot_code e cur p = Some code \<and> code \<noteq> []
           \<and> process_dot_code e code (session_path email sid) (record_call (Modify cur p) w) = (Inr out, w'))"
  using assms
  by (auto simp: handle_add_request_session respond_success exists_path_def stored_document_def
      process_flowchart_request_def Let_def split: if_splits option.splits)

lemma create_success:
  assumes "user_email req = Some email" "prompt req = Some p"
    and "handle_create_request e req w = (Inr (s, out), w')"
  shows "s = uuid4 e \<and> (\<exists>code.
           generate_initial_dot_code e p = Some code \<and> code \<noteq> []
           \<and> process_dot_code e code (session_path email (uuid4 e)) (record_call (GenerateInitial p) w)
               = (Inr out, w'))"
  using assms
  by (auto simp: handle_create_request_session respond_success process_flowchart_request_def Let_def
      split: if_splits option.splits)

lemma load_success:
  assumes "user_email req = Some email" "template_id req = Some tid"
    and "handle_load_template_request e req w = (Inr (s, out), w')"
  shows "s = uuid4 e \<and> (\<exists>code.
           read_text w (joinpath TEMPLATE_DIR (tid @ str ''.dot'')) = Some code
           \<and> process_dot_code e code (session_path email (uuid4 e)) w = (Inr out, w'))"
  using assms
  by (auto simp: handle_load_template_request_session respond_success split: option.splits)

lemma snd_respond: "snd (respond sid r) = snd r"
  by (simp add: respond_fst_snd)

lemma flowchart_request_frame:
  assumes "resolve w q \<noteq> resolve w (session_path email sid)"
    "resolve w q \<noteq> resolve w (joinpath TEMP_DIR (session_stem sid @ str ''.dot''))"
    "resolve w q \<noteq> resolve w (joinpath TEMP_DIR (session_stem sid @ str ''.png''))"
    "resolve w q \<noteq> resolve w (joinpath OUTPUT_DIR (output_name sid))"
  shows "read_text (snd (process_flowchart_request e p (session_path email sid) is_new w)) q = read_text w q"
  using assms
  by (simp add: process_flowchart_request_def Let_def session_frame store_simps split: option.splits)

lemma append_frame:
  assumes "user_email req = Some email" "session_id req = Some sid"
    and "resolve w q \<noteq> resolve w (session_path email sid)"
    "resolve w q \<noteq> resolve w (joinpath TEMP_DIR (session_stem sid @ str ''.dot''))"
    "resolve w q \<noteq> resolve w (joinpath TEMP_DIR (session_stem sid @ str ''.png''))"
    "resolve w q \<noteq> resolve w (joinpath OUTPUT_DIR (output_name sid))"
  shows "read_text (snd (handle_add_request e req w)) q = read_text w q"
proof (cases "prompt req")
  case None
  with assms(1,2) show ?thesis by (simp add: handle_add_request_def)
next
  case (Some p)
  with assms show ?thesis
    by (simp add: handle_add_request_session snd_respond flowchart_request_frame)
qed

lemma create_frame:
  assumes "user_email req = Some email"
    and "resolve w q \<noteq> resolve w (session_path email (uuid4 e))"
    "resolve w q \<noteq> resolve w (joinpath TEMP_DIR (session_stem (uuid4 e) @ str ''.dot''))"
    "resolve w q \<noteq> resolve w (joinpath TEMP_DIR (session_stem (uuid4 e) @ str ''.png''))"
    "resolve w q \<noteq> resolve w (joinpath OUTPUT_DIR (output_name (uuid4 e)))"
  shows "read_text (snd (handle_create_request e req w)) q = read_text w q"
proof (cases "prompt req")
  case None
  with assms(1) show ?thesis by (simp add: handle_create_request_def)
next
  case (Some p)
  with assms show ?thesis
    by (simp add: handle_create_request_session snd_respond flowchart_request_frame)
qed

lemma load_frame:
  assumes "user_email req = Some email"
    and "resolve w q \<noteq> resolve w (session_path email (uuid4 e))"
    "resolve w q \<noteq> resolve w (joinpath TEMP_DIR (session_stem (uuid4 e) @ str ''.dot''))"
    "resolve w q \<noteq> resolve w (joinpath TEMP_DIR (session_stem (uuid4 e) @ str ''.png''))"
    "resolve w q \<noteq> resolve w (joinpath OUTPUT_DIR (output_name (uuid4 e)))"
  shows "read_text (snd (handle_load_template_request e req w)) q = read_text w q"
proof (cases "template_id req")
  case None
  with assms(1) show ?thesis by (simp add: handle_load_template_request_def)
next
  case (Some tid)
  with assms show ?thesis
    by (simp add: handle_load_template_request_session snd_respond session_frame split: option.splits)
qed

lemma generation_failed_frame:
  assumes "process_flowchart_request e p sf is_new w = (Inl GenerationFailed, w')"
  shows "files w' = files w"
proof (cases is_new)
  case True
  show ?thesis
  proof (cases "generate_initial_dot_code e p = None \<or> generate_initial_dot_code e p = Some []")
    case True
    with assms \<open>is_new\<close> show ?thesis
      by (auto simp: process_flowchart_request_def Let_def files_record_call)
  next
    case False
    with assms \<open>is_new\<close>
      process_dot_code_errors [of e "the (generate_initial_dot_code e p)" sf
        "record_call (GenerateInitial p) w" GenerationFailed]
    show ?thesis
      by (simp add: process_flowchart_request_def Let_def)
  qed
next
  case False
  show ?thesis
  proof (cases "read_text w sf")
    case None
    with assms False show ?thesis by (simp add: process_flowchart_request_def)
  next
    case (Some cur)
    show ?thesis
    proof (cases "modify_dot_code e cur p = None \<or> modify_dot_code e cur p = Some []")
      case True
      with assms False Some show ?thesis
        by (auto simp: process_flowchart_request_def Let_def files_record_call)
    next
      case no: False
      with assms False Some
        process_dot_code_errors [of e "the (modify_dot_code e cur p)" sf
          "record_call (Modify cur p) w" GenerationFailed]
      show ?thesis
        by (simp add: process_flowchart_request_def Let_def)
    qed
  qed
qed

lemma returned_request_stores_text:
  assumes plain: "slash \<notin> set sid"
    and run: "process_flowchart_request e p (session_path email sid) is_new w = (r, w')"
    and r: "r \<noteq> Inl Uncaught" "r \<noteq> Inl GenerationFailed"
  shows "\<exists>code. code \<noteq> [] \<and> stored_document w' email sid = Some code"
proof -
  from process_flowchart_request_writes [OF run r(2) r(1)]
  obtain code w1 where c: "code \<noteq> []"
    "process_dot_code e code (session_path email sid) w1 = (r, w')"
    by blast
  have "fst (process_dot_code e code (session_path email sid) w1) \<noteq> Inl Uncaught"
    using c(2) r(1) by simp
  then have "text_encodable w1 code"
    by (rule process_dot_code_returned)
  with plain
  have "stored_document (snd (process_dot_code e code (session_path email sid) w1)) email sid = Some code"
    by (rule stored_after_process_dot_code)
  with c show ?thesis by auto
qed

lemma append_checks_session_file:
  assumes "user_email req = Some email" "session_id req = Some sid" "prompt req = Some p"
  shows "(stored_document w email sid = None
            \<longrightarrow> handle_add_request e req w = (Inl SessionNotFound, w))
         \<and> (stored_document w email sid \<noteq> None
            \<longrightarrow> fst (handle_add_request e req w) \<noteq> Inl SessionNotFound)"
proof (intro conjI impI)
  assume "stored_document w email sid = None"
  with assms show "handle_add_request e req w = (Inl SessionNotFound, w)"
    by (simp add: handle_add_request_session exists_path_def stored_document_def)
next
  assume "stored_document w email sid \<noteq> None"
  then have stored: "read_text w (session_path email sid) \<noteq> None"
    by (simp add: stored_document_def)
  then have "fst (process_flowchart_request e p (session_path email sid) False w) \<noteq> Inl SessionNotFound"
    by (rule append_errors)
  with assms stored show "fst (handle_add_request e req w) \<noteq> Inl SessionNotFound"
    by (auto simp: handle_add_request_session exists_path_def respond_fst_snd split: sum.splits)
qed

section \<open>Facts of the concrete installation\<close>

lemma bob_session_plain: "slash \<notin> set bob_session"
  by (simp add: bob_session_def str_def)

lemma bob_document:
  "stored_document example_world (str ''bob@example.com'') bob_session
     = Some (str ''digraph flowchart { Payroll; }'')"
  by code_simp

lemma add_request_fields:
  "user_email add_request = Some (str ''bob@example.com'')"
  "session_id add_request = Some bob_session"
  "prompt add_request = Some (str ''Add step B after A'')"
  by (simp_all add: add_request_def)

lemma create_request_fields:
  "user_email create_request = Some (str ''alice@example.com'')"
  "prompt create_request = Some (str ''Start with step A'')"
  by (simp_all add: create_request_def)

lemma uuid_plain: "slash \<notin> set (uuid4 example_env)"
  by (simp add: example_env_def str_def)

lemma create_succeeds:
  "fst (handle_create_request example_env create_request example_world)
     = Inr (uuid4 example_env, str ''flowchart_9f1c2e4a-7b3d-4c5e-8a6f-0d1e2f3a4b5c.pdf'')"
  by code_simp

lemma add_succeeds:
  "fst (handle_add_request example_env add_request example_world)
     = Inr (bob_session, str ''flowchart_5d0c3f6e-8a41-4f7b-9c2d-3e1a7b6f0c55.pdf'')"
  by code_simp

section \<open>The claims\<close>

text \<open>
  C8. \<open>sanitize_email_for_folder\<close> is a function of its argument alone, defined on every
  string; its result consists of characters of \<open>[A-Za-z0-9_-]\<close> only, and it is the input
  with every character outside that class replaced by an underscore.
\<close>

theorem C8_normalize_total_and_safe:
  "(\<exists>y. sanitize_email_for_folder x = y \<and> folder_name y)
   \<and> sanitize_email_for_folder x = sanitize_email_for_folder x
   \<and> sanitize_email_for_folder x = map (\<lambda>c. if folder_char c then c else 95) x"
  by (simp add: folder_name_sanitize) (rule sanitize_map)

text \<open>
  C9. Sanitising twice is sanitising once, and the result has as many characters as the
  input.
\<close>

theorem C9_sanitize_idempotent_length:
  "sanitize_email_for_folder (sanitize_email_for_folder x) = sanitize_email_for_folder x
   \<and> length (sanitize_email_for_folder x) = length x"
proof
  show "sanitize_email_for_folder (sanitize_email_for_folder x) = sanitize_email_for_folder x"
    by (rule sanitize_fixes_folder_name) (rule folder_name_sanitize)
  show "length (sanitize_email_for_folder x) = length x"
    by (simp add: sanitize_map)
qed

text \<open>
  C7. \<open>handle_add_request\<close> joins the session id to the folder of the user and asks the file
  system whether anything is there; it does not look the id up among the sessions of the
  user. In the concrete installation the store holds no document of eve under the id
  \<open>../bob_example_com/<bob's session>\<close>, and still her append is not answered with
  \<open>SessionNotFound\<close>: it succeeds, the generator is called on bob's document, and bob's
  document is overwritten with the new text.
\<close>

theorem C7_append_reaches_other_namespace:
  "session_store_read two_user_world (str ''eve@example.com'') (str ''../bob_example_com/'' @ bob_session)
     = None
   \<and> fst (handle_add_request example_env cross_user_request two_user_world)
     = Inr (str ''../bob_example_com/'' @ bob_session,
            str ''flowchart_5d0c3f6e-8a41-4f7b-9c2d-3e1a7b6f0c55.pdf'')
   \<and> calls (snd (handle_add_request example_env cross_user_request two_user_world))
     = [Modify (str ''digraph flowchart { Payroll; }'') (str ''Add step B after A''),
        Graphviz (str ''digraph flowchart { A -> B; }''),
        PdfEmbed (str ''%PDF'') (str ''PNG'')]
   \<and> stored_document two_user_world (str ''bob@example.com'') bob_session
     = Some (str ''digraph flowchart { Payroll; }'')
   \<and> stored_document (snd (handle_add_request example_env cross_user_request two_user_world))
        (str ''bob@example.com'') bob_session
     = Some (str ''digraph flowchart { A -> B; }'')"
  by code_simp

text \<open>
  C3. When the generator yields no text (\<open>None\<close> or the empty string), a create answers
  \<open>GenerationFailed\<close> and leaves every file as it was, so no session document appears; an
  append answers \<open>GenerationFailed\<close> and the stored document is the one from before the call.
\<close>

theorem C3_generation_failure_writes_nothing:
  "(user_email req = Some email \<and> prompt req = Some p
      \<and> (generate_initial_dot_code e p = None \<or> generate_initial_dot_code e p = Some [])
    \<longrightarrow> handle_create_request e req w = (Inl GenerationFailed, record_call (GenerateInitial p) w)
        \<and> files (snd (handle_create_request e req w)) = files w)
   \<and> (user_email req = Some email \<and> session_id req = Some sid \<and> prompt req = Some p
        \<and> stored_document w email sid = Some cur
        \<and> (modify_dot_code e cur p = None \<or> modify_dot_code e cur p = Some [])
    \<longrightarrow> handle_add_request e req w = (Inl GenerationFailed, record_call (Modify cur p) w)
        \<and> files (snd (handle_add_request e req w)) = files w
        \<and> stored_document (snd (handle_add_request e req w)) email sid = Some cur)"
  by (auto simp: handle_create_request_session handle_add_request_session exists_path_def
      stored_document_def process_flowchart_request_def Let_def respond_def files_record_call
      read_record_call)

theorem C3_witness:
  "handle_create_request silent_env create_request example_world
     = (Inl GenerationFailed, record_call (GenerateInitial (str ''Start with step A'')) example_world)
   \<and> files (snd (handle_create_request silent_env create_request example_world)) = files example_world
   \<and> handle_add_request silent_env add_request example_world
     = (Inl GenerationFailed,
        record_call (Modify (str ''digraph flowchart { Payroll; }'') (str ''Add step B after A''))
          example_world)
   \<and> stored_document (snd (handle_add_request silent_env add_request example_world))
        (str ''bob@example.com'') bob_session
     = Some (str ''digraph flowchart { Payroll; }'')"
proof -
  have g1: "generate_initial_dot_code silent_env (str ''Start with step A'') = None"
    by (simp add: silent_env_def)
  have g2: "modify_dot_code silent_env (str ''digraph flowchart { Payroll; }'')
              (str ''Add step B after A'') = Some []"
    by (simp add: silent_env_def)
  note c = C3_generation_failure_writes_nothing
    [where e = silent_env and w = example_world and email = "str ''alice@example.com''"
       and p = "str ''Start with step A''" and req = create_request]
  note a = C3_generation_failure_writes_nothing
    [where e = silent_env and w = example_world and email = "str ''bob@example.com''"
       and p = "str ''Add step B after A''" and req = add_request and sid = bob_session
       and cur = "str ''digraph flowchart { Payroll; }''"]
  from c g1 create_request_fields
  have "handle_create_request silent_env create_request example_world
          = (Inl GenerationFailed, record_call (GenerateInitial (str ''Start with step A'')) example_world)
        \<and> files (snd (handle_create_request silent_env create_request example_world)) = files example_world"
    by blast
  moreover from a g2 add_request_fields bob_document
  have "handle_add_request silent_env add_request example_world
          = (Inl GenerationFailed,
             record_call (Modify (str ''digraph flowchart { Payroll; }'') (str ''Add step B after A''))
               example_world)
        \<and> stored_document (snd (handle_add_request silent_env add_request example_world))
             (str ''bob@example.com'') bob_session
          = Some (str ''digraph flowchart { Payroll; }'')"
    by blast
  ultimately show ?thesis by blast
qed

text \<open>
  C10. That no empty document is ever persisted through create or append does not hold: a
  text that is not empty but holds a character the encoding of the locale cannot encode
  makes \<open>write_text\<close> raise after it has truncated the session file. The create and the
  append below end with the uncaught exception, and an empty session document is in the
  store afterwards.
\<close>

theorem C10_unencodable_text_leaves_empty_document:
  "arrow_text \<noteq> []
   \<and> stored_document example_world (str ''alice@example.com'') (uuid4 arrow_env) = None
   \<and> fst (handle_create_request arrow_env create_request example_world) = Inl Uncaught
   \<and> stored_document (snd (handle_create_request arrow_env create_request example_world))
        (str ''alice@example.com'') (uuid4 arrow_env)
     = Some []
   \<and> fst (handle_add_request arrow_env add_request example_world) = Inl Uncaught
   \<and> stored_document (snd (handle_add_request arrow_env add_request example_world))
        (str ''bob@example.com'') bob_session
     = Some []"
  by code_simp

text \<open>
  C10, amended. The empty string from either generator is a generation failure: the
  request stops with \<open>GenerationFailed\<close> and only the log of calls grows. A request that is
  answered \<open>GenerationFailed\<close> leaves every file as it was, whenever
  \<open>process_flowchart_request\<close> changes a file at all it does so through \<open>process_dot_code\<close>
  on a text that is not empty, and a request that gets past the generation and ends
  without an uncaught exception leaves a session document that is not empty.
\<close>

theorem C10_empty_text_is_generation_failure:
  "(generate_initial_dot_code e p = Some []
      \<longrightarrow> process_flowchart_request e p sf True w = (Inl GenerationFailed, record_call (GenerateInitial p) w))
   \<and> (read_text w sf = Some cur \<and> modify_dot_code e cur p = Some []
      \<longrightarrow> process_flowchart_request e p sf False w = (Inl GenerationFailed, record_call (Modify cur p) w))
   \<and> (process_flowchart_request e p sf is_new w = (r, w') \<and> files w' \<noteq> files w
      \<longrightarrow> (\<exists>code w1. code \<noteq> [] \<and> files w1 = files w \<and> process_dot_code e code sf w1 = (r, w')))
   \<and> (process_flowchart_request e p sf is_new w = (Inl GenerationFailed, w')
      \<longrightarrow> files w' = files w)
   \<and> (slash \<notin> set sid
        \<and> process_flowchart_request e p (session_path email sid) is_new w = (r, w')
        \<and> r \<noteq> Inl Uncaught \<and> r \<noteq> Inl GenerationFailed
      \<longrightarrow> (\<exists>code. code \<noteq> [] \<and> stored_document w' email sid = Some code))"
proof (intro conjI impI)
  assume "generate_initial_dot_code e p = Some []"
  then show "process_flowchart_request e p sf True w = (Inl GenerationFailed, record_call (GenerateInitial p) w)"
    by (simp add: process_flowchart_request_def Let_def)
next
  assume "read_text w sf = Some cur \<and> modify_dot_code e cur p = Some []"
  then show "process_flowchart_request e p sf False w = (Inl GenerationFailed, record_call (Modify cur p) w)"
    by (simp add: process_flowchart_request_def Let_def)
next
  assume a: "process_flowchart_request e p sf is_new w = (r, w') \<and> files w' \<noteq> files w"
  show "\<exists>code w1. code \<noteq> [] \<and> files w1 = files w \<and> process_dot_code e code sf w1 = (r, w')"
  proof (cases is_new)
    case True
    with a obtain code where "code \<noteq> []"
      "process_dot_code e code sf (record_call (GenerateInitial p) w) = (r, w')"
      by (auto simp: process_flowchart_request_def Let_def files_record_call split: if_splits)
    then show ?thesis
      using files_record_call by blast
  next
    case False
    with a obtain cur' code where "code \<noteq> []"
      "process_dot_code e code sf (record_call (Modify cur' p) w) = (r, w')"
      by (auto simp: process_flowchart_request_def Let_def files_record_call
          split: if_splits option.splits)
    then show ?thesis
      using files_record_call by blast
  qed
next
  assume "process_flowchart_request e p sf is_new w = (Inl GenerationFailed, w')"
  then show "files w' = files w"
    by (rule generation_failed_frame)
next
  assume "slash \<notin> set sid
        \<and> process_flowchart_request e p (session_path email sid) is_new w = (r, w')
        \<and> r \<noteq> Inl Uncaught \<and> r \<noteq> Inl GenerationFailed"
  then show "\<exists>code. code \<noteq> [] \<and> stored_document w' email sid = Some code"
    using returned_request_stores_text by blast
qed

theorem C10_witness:
  "process_flowchart_request empty_text_env (str ''Start with step A'')
      (session_path (str ''alice@example.com'') (uuid4 example_env)) True example_world
     = (Inl GenerationFailed, record_call (GenerateInitial (str ''Start with step A'')) example_world)
   \<and> process_flowchart_request empty_text_env (str ''Add step B after A'')
      (session_path (str ''bob@example.com'') bob_session) False example_world
     = (Inl GenerationFailed,
        record_call (Modify (str ''digraph flowchart { Payroll; }'') (str ''Add step B after A''))
          example_world)
   \<and> (\<exists>code w1. code \<noteq> [] \<and> files w1 = files example_world
         \<and> process_dot_code example_env code
             (session_path (str ''alice@example.com'') (uuid4 example_env)) w1
           = process_flowchart_request example_env (str ''Start with step A'')
               (session_path (str ''alice@example.com'') (uuid4 example_env)) True example_world)
   \<and> files (record_call (GenerateInitial (str ''Start with step A'')) example_world)
     = files example_world
   \<and> (\<exists>code. code \<noteq> []
         \<and> stored_document
             (snd (process_flowchart_request example_env (str ''Start with step A'')
                    (session_path (str ''alice@example.com'') (uuid4 example_env)) True example_world))
             (str ''alice@example.com'') (uuid4 example_env)
           = Some code)"
proof -
  let ?sf = "session_path (str ''alice@example.com'') (uuid4 example_env)"
  let ?run = "process_flowchart_request example_env (str ''Start with step A'') ?sf True example_world"
  have g1: "generate_initial_dot_code empty_text_env (str ''Start with step A'') = Some []"
    by (simp add: empty_text_env_def)
  have g2: "modify_dot_code empty_text_env (str ''digraph flowchart { Payroll; }'')
              (str ''Add step B after A'') = Some []"
    by (simp add: empty_text_env_def)
  have rd: "read_text example_world (session_path (str ''bob@example.com'') bob_session)
              = Some (str ''digraph flowchart { Payroll; }'')"
    using bob_document by (simp add: stored_document_def)
  have changed: "files (snd ?run) \<noteq> files example_world"
    by code_simp
  have answer: "fst ?run = Inr (str ''flowchart_9f1c2e4a-7b3d-4c5e-8a6f-0d1e2f3a4b5c.pdf'')"
    by code_simp
  have pair: "?run = (fst ?run, snd ?run)"
    by simp
  note n = C10_empty_text_is_generation_failure
    [where e = empty_text_env and p = "str ''Start with step A''" and sf = ?sf and w = example_world,
     THEN conjunct1, rule_format, OF g1]
  note m = C10_empty_text_is_generation_failure
    [where e = empty_text_env and p = "str ''Add step B after A''" and w = example_world
       and sf = "session_path (str ''bob@example.com'') bob_session"
       and cur = "str ''digraph flowchart { Payroll; }''",
     THEN conjunct2, THEN conjunct1, rule_format, OF conjI [OF rd g2]]
  note k = C10_empty_text_is_generation_failure
    [where e = example_env and p = "str ''Start with step A''" and sf = ?sf and w = example_world
       and is_new = True and r = "fst ?run" and w' = "snd ?run",
     THEN conjunct2, THEN conjunct2, THEN conjunct1, rule_format, OF conjI [OF pair changed]]
  note f = C10_empty_text_is_generation_failure
    [where e = empty_text_env and p = "str ''Start with step A''" and sf = ?sf and w = example_world
       and is_new = True
       and w' = "record_call (GenerateInitial (str ''Start with step A'')) example_world",
     THEN conjunct2, THEN conjunct2, THEN conjunct2, THEN conjunct1, rule_format, OF n]
  note t = C10_empty_text_is_generation_failure
    [where e = example_env and p = "str ''Start with step A''" and w = example_world
       and email = "str ''alice@example.com''" and sid = "uuid4 example_env"
       and is_new = True and r = "fst ?run" and w' = "snd ?run",
     THEN conjunct2, THEN conjunct2, THEN conjunct2, THEN conjunct2, rule_format]
  have "\<exists>code. code \<noteq> [] \<and> stored_document (snd ?run) (str ''alice@example.com'') (uuid4 example_env) = Some code"
    using t uuid_plain pair answer by simp
  moreover from k have "\<exists>code w1. code \<noteq> [] \<and> files w1 = files example_world
         \<and> process_dot_code example_env code ?sf w1 = ?run"
    by simp
  ultimately show ?thesis
    using n m f by blast
qed

text \<open>
  C4. For a session id without a slash (every UUID string is one) and a text that the
  persist step can write (the encoding of the locale encodes it): when Graphviz fails, the
  document that \<open>process_dot_code\<close> wrote first is still the stored document of the session.
  In particular, when an append generated a new text and the rendering failed, the stored
  document is the new text, and the next append on the same session hands that new text to
  the generator.
\<close>

theorem C4_render_failure_keeps_document:
  assumes "slash \<notin> set sid"
  shows "(text_encodable w code \<and> dot_exe e code = Failed f
            \<longrightarrow> fst (process_dot_code e code (session_path email sid) w) = Inl RenderFailed
                \<and> stored_document (snd (process_dot_code e code (session_path email sid) w)) email sid = Some code)
         \<and> (user_email req = Some email \<and> session_id req = Some sid \<and> prompt req = Some p
              \<and> stored_document w email sid = Some old
              \<and> modify_dot_code e old p = Some new \<and> new \<noteq> [] \<and> text_encodable w new
              \<and> dot_exe e new = Failed f
            \<longrightarrow> fst (handle_add_request e req w) = Inl RenderFailed
                \<and> stored_document (snd (handle_add_request e req w)) email sid = Some new
                \<and> handle_add_request e2 (req\<lparr>prompt := Some p2\<rparr>) (snd (handle_add_request e req w)) =
                    respond sid
                      (let dot_code = modify_dot_code e2 new p2;
                           w1 = record_call (Modify new p2) (snd (handle_add_request e req w))
                       in if dot_code = None \<or> dot_code = Some [] then (Inl GenerationFailed, w1)
                          else process_dot_code e2 (the dot_code) (session_path email sid) w1))"
proof (intro conjI impI)
  assume a: "text_encodable w code \<and> dot_exe e code = Failed f"
  then show "fst (process_dot_code e code (session_path email sid) w) = Inl RenderFailed"
    by (simp add: render_failed)
  show "stored_document (snd (process_dot_code e code (session_path email sid) w)) email sid = Some code"
    using assms a by (simp add: stored_after_process_dot_code)
next
  assume a: "user_email req = Some email \<and> session_id req = Some sid \<and> prompt req = Some p
              \<and> stored_document w email sid = Some old
              \<and> modify_dot_code e old p = Some new \<and> new \<noteq> [] \<and> text_encodable w new
              \<and> dot_exe e new = Failed f"
  let ?w1 = "record_call (Modify old p) w"
  let ?r = "process_dot_code e new (session_path email sid) ?w1"
  have add: "handle_add_request e req w = respond sid ?r"
    using a
    by (simp add: handle_add_request_session exists_path_def stored_document_def
        process_flowchart_request_def Let_def)
  have enc: "text_encodable ?w1 new"
    using a by (simp add: text_encodable_record_call)
  have failed: "fst ?r = Inl RenderFailed"
    using a enc by (simp add: render_failed)
  have kept: "stored_document (snd ?r) email sid = Some new"
    using assms enc by (rule stored_after_process_dot_code)
  show "fst (handle_add_request e req w) = Inl RenderFailed"
    using failed by (simp add: add respond_fst_snd)
  show kept': "stored_document (snd (handle_add_request e req w)) email sid = Some new"
    using kept by (simp add: add respond_fst_snd)
  show "handle_add_request e2 (req\<lparr>prompt := Some p2\<rparr>) (snd (handle_add_request e req w)) =
          respond sid
            (let dot_code = modify_dot_code e2 new p2;
                 w1 = record_call (Modify new p2) (snd (handle_add_request e req w))
             in if dot_code = None \<or> dot_code = Some [] then (Inl GenerationFailed, w1)
                else process_dot_code e2 (the dot_code) (session_path email sid) w1)"
    using a kept'
    by (simp add: handle_add_request_session [where email = email and sid = sid and p = p2]
        exists_path_def stored_document_def process_flowchart_request_def Let_def)
qed

theorem C4_witness:
  "fst (handle_add_request no_graphviz_env add_request example_world) = Inl RenderFailed
   \<and> stored_document (snd (handle_add_request no_graphviz_env add_request example_world))
        (str ''bob@example.com'') bob_session
     = Some (str ''digraph flowchart { A -> B; }'')
   \<and> fst (handle_add_request silent_env (add_request\<lparr>prompt := Some (str ''Add step C'')\<rparr>)
           (snd (handle_add_request no_graphviz_env add_request example_world)))
     = Inl GenerationFailed
   \<and> calls (snd (handle_add_request silent_env (add_request\<lparr>prompt := Some (str ''Add step C'')\<rparr>)
           (snd (handle_add_request no_graphviz_env add_request example_world))))
     = [Modify (str ''digraph flowchart { Payroll; }'') (str ''Add step B after A''),
        Graphviz (str ''digraph flowchart { A -> B; }''),
        Modify (str ''digraph flowchart { A -> B; }'') (str ''Add step C'')]"
proof -
  have g: "modify_dot_code no_graphviz_env (str ''digraph flowchart { Payroll; }'')
             (str ''Add step B after A'') = Some (str ''digraph flowchart { A -> B; }'')"
    by (simp add: no_graphviz_env_def example_env_def)
  have ne: "str ''digraph flowchart { A -> B; }'' \<noteq> []"
    by (simp add: str_def)
  have d: "dot_exe no_graphviz_env (str ''digraph flowchart { A -> B; }'') = Failed None"
    by (simp add: no_graphviz_env_def)
  have enc: "text_encodable example_world (str ''digraph flowchart { A -> B; }'')"
    by code_simp
  have g2: "modify_dot_code silent_env (str ''digraph flowchart { A -> B; }'') (str ''Add step C'') = Some []"
    by (simp add: silent_env_def)
  note t = C4_render_failure_keeps_document
    [OF bob_session_plain, where e = no_graphviz_env and w = example_world
       and email = "str ''bob@example.com''" and req = add_request
       and p = "str ''Add step B after A''" and old = "str ''digraph flowchart { Payroll; }''"
       and new = "str ''digraph flowchart { A -> B; }''" and f = None
       and ?e2.0 = silent_env and ?p2.0 = "str ''Add step C''", THEN conjunct2, rule_format]
  have t': "fst (handle_add_request no_graphviz_env add_request example_world) = Inl RenderFailed
     \<and> stored_document (snd (handle_add_request no_graphviz_env add_request example_world))
          (str ''bob@example.com'') bob_session = Some (str ''digraph flowchart { A -> B; }'')
     \<and> handle_add_request silent_env (add_request\<lparr>prompt := Some (str ''Add step C'')\<rparr>)
          (snd (handle_add_request no_graphviz_env add_request example_world))
        = (Inl GenerationFailed,
           record_call (Modify (str ''digraph flowchart { A -> B; }'') (str ''Add step C''))
             (snd (handle_add_request no_graphviz_env add_request example_world)))"
    using t g ne d enc add_request_fields bob_document
    by (simp add: g2 Let_def respond_def)
  have c: "calls (snd (handle_add_request no_graphviz_env add_request example_world))
             = [Modify (str ''digraph flowchart { Payroll; }'') (str ''Add step B after A''),
                Graphviz (str ''digraph flowchart { A -> B; }'')]"
    by code_simp
  show ?thesis
    using t' c by (simp add: record_call_def)
qed

text \<open>
  C5. After a successful create with an instruction, the session id answered is the fresh
  UUID, and the document stored for it is exactly what \<open>generate_initial_dot_code\<close> returned
  for the instruction.
\<close>

theorem C5_create_persists_generator_output:
  assumes "handle_create_request e req w = (Inr (sid, out), w')"
    and "user_email req = Some email" "prompt req = Some instruction"
    and "slash \<notin> set (uuid4 e)"
  shows "sid = uuid4 e \<and> generate_initial_dot_code e instruction \<noteq> None
         \<and> stored_document w' email sid = generate_initial_dot_code e instruction"
proof -
  from assms have sid: "sid = uuid4 e"
    and run: "process_flowchart_request e instruction (session_path email (uuid4 e)) True w = (Inr out, w')"
    by (auto simp: handle_create_request_session respond_success)
  from process_flowchart_request_success [OF run]
  obtain code w1 where code: "process_dot_code e code (session_path email (uuid4 e)) w1 = (Inr out, w')"
    "generate_initial_dot_code e instruction = Some code"
    by auto
  have "fst (process_dot_code e code (session_path email (uuid4 e)) w1) \<noteq> Inl Uncaught"
    using code(1) by simp
  then have "text_encodable w1 code"
    by (rule process_dot_code_returned)
  with assms(4)
  have "stored_document (snd (process_dot_code e code (session_path email (uuid4 e)) w1)) email (uuid4 e) = Some code"
    by (rule stored_after_process_dot_code)
  with code sid show ?thesis by simp
qed

theorem C5_witness:
  "stored_document (snd (handle_create_request example_env create_request example_world))
     (str ''alice@example.com'') (uuid4 example_env)
   = Some (str ''digraph flowchart { A; }'')"
proof -
  have run: "handle_create_request example_env create_request example_world
      = (Inr (uuid4 example_env, str ''flowchart_9f1c2e4a-7b3d-4c5e-8a6f-0d1e2f3a4b5c.pdf''),
         snd (handle_create_request example_env create_request example_world))"
    using create_succeeds by (simp add: prod_eq_iff)
  have g: "generate_initial_dot_code example_env (str ''Start with step A'')
             = Some (str ''digraph flowchart { A; }'')"
    by (simp add: example_env_def)
  from C5_create_persists_generator_output [OF run create_request_fields uuid_plain] g
  show ?thesis by simp
qed

text \<open>
  C6. The output document's name is \<open>output_name\<close> of the session id, a function of the id
  alone, in every successful answer of the three handlers, and the output document lies at
  that name in the output directory afterwards; for an id without a slash the name is
  \<open>flowchart_<id>.pdf\<close>. For such an id, the file at that name holds afterwards the PDF that
  PyMuPDF made in this call, from the template and from the image Graphviz made of this
  call's text, whatever was at that name before, and every other name in the output
  directory holds what it held before. Whatever the id and whatever the answer, a request
  changes no file but the session file, the two temporary files and that output document.
\<close>

theorem C6_output_name_from_session_id:
  "(session_id req = Some sid \<and> handle_add_request e req w = (Inr (s, out), w')
      \<longrightarrow> s = sid \<and> out = output_name sid \<and> is_file w' (joinpath OUTPUT_DIR (output_name sid)))
   \<and> (handle_create_request e req w = (Inr (s, out), w')
      \<longrightarrow> s = uuid4 e \<and> out = output_name (uuid4 e)
          \<and> is_file w' (joinpath OUTPUT_DIR (output_name (uuid4 e))))
   \<and> (handle_load_template_request e req w = (Inr (s, out), w')
      \<longrightarrow> s = uuid4 e \<and> out = output_name (uuid4 e)
          \<and> is_file w' (joinpath OUTPUT_DIR (output_name (uuid4 e))))
   \<and> (sid \<noteq> [] \<and> slash \<notin> set sid \<longrightarrow> output_name sid = str ''flowchart_'' @ sid @ str ''.pdf'')
   \<and> (user_email req = Some email \<and> session_id req = Some sid \<and> prompt req = Some p
        \<and> slash \<notin> set sid \<and> handle_add_request e req w = (Inr (s, out), w')
      \<longrightarrow> (\<exists>cur code png template pdf.
             stored_document w email sid = Some cur \<and> modify_dot_code e cur p = Some code
             \<and> dot_exe e code = Completed png
             \<and> read_text w (parse_path PDF_TEMPLATE_PATH) = Some template
             \<and> fitz_insert e template png = Completed pdf
             \<and> (\<forall>n. read_text w' (OUTPUT_DIR @ [n]) =
                      (if n = output_name sid then Some pdf else read_text w (OUTPUT_DIR @ [n])))))
   \<and> (user_email req = Some email \<and> prompt req = Some p
        \<and> slash \<notin> set (uuid4 e) \<and> handle_create_request e req w = (Inr (s, out), w')
      \<longrightarrow> (\<exists>code png template pdf.
             generate_initial_dot_code e p = Some code
             \<and> dot_exe e code = Completed png
             \<and> read_text w (parse_path PDF_TEMPLATE_PATH) = Some template
             \<and> fitz_insert e template png = Completed pdf
             \<and> (\<forall>n. read_text w' (OUTPUT_DIR @ [n]) =
                      (if n = output_name (uuid4 e) then Some pdf else read_text w (OUTPUT_DIR @ [n])))))
   \<and> (user_email req = Some email \<and> template_id req = Some tid
        \<and> slash \<notin> set (uuid4 e) \<and> handle_load_template_request e req w = (Inr (s, out), w')
      \<longrightarrow> (\<exists>code png template pdf.
             read_text w (joinpath TEMPLATE_DIR (tid @ str ''.dot'')) = Some code
             \<and> dot_exe e code = Completed png
             \<and> read_text w (parse_path PDF_TEMPLATE_PATH) = Some template
             \<and> fitz_insert e template png = Completed pdf
             \<and> (\<forall>n. read_text w' (OUTPUT_DIR @ [n]) =
                      (if n = output_name (uuid4 e) then Some pdf else read_text w (OUTPUT_DIR @ [n])))))
   \<and> (user_email req = Some email \<and> session_id req = Some sid
        \<and> resolve w q \<noteq> resolve w (session_path email sid)
        \<and> resolve w q \<noteq> resolve w (joinpath TEMP_DIR (session_stem sid @ str ''.dot''))
        \<and> resolve w q \<noteq> resolve w (joinpath TEMP_DIR (session_stem sid @ str ''.png''))
        \<and> resolve w q \<noteq> resolve w (joinpath OUTPUT_DIR (output_name sid))
      \<longrightarrow> read_text (snd (handle_add_request e req w)) q = read_text w q)
   \<and> (user_email req = Some email
        \<and> resolve w q \<noteq> resolve w (session_path email (uuid4 e))
        \<and> resolve w q \<noteq> resolve w (joinpath TEMP_DIR (session_stem (uuid4 e) @ str ''.dot''))
        \<and> resolve w q \<noteq> resolve w (joinpath TEMP_DIR (session_stem (uuid4 e) @ str ''.png''))
        \<and> resolve w q \<noteq> resolve w (joinpath OUTPUT_DIR (output_name (uuid4 e)))
      \<longrightarrow> read_text (snd (handle_create_request e req w)) q = read_text w q
          \<and> read_text (snd (handle_load_template_request e req w)) q = read_text w q)"
proof (intro conjI impI)
  assume a: "session_id req = Some sid \<and> handle_add_request e req w = (Inr (s, out), w')"
  then obtain email p where f: "user_email req = Some email" "prompt req = Some p"
    by (auto simp: handle_add_request_def split: option.splits)
  from a f have "s = sid \<and> process_flowchart_request e p (session_path email sid) False w = (Inr out, w')"
    by (auto simp: handle_add_request_session respond_success split: if_splits)
  then show "s = sid" "out = output_name sid" "is_file w' (joinpath OUTPUT_DIR (output_name sid))"
    using process_flowchart_request_success session_success by blast+
next
  assume a: "handle_create_request e req w = (Inr (s, out), w')"
  then obtain email p where f: "user_email req = Some email" "prompt req = Some p"
    by (auto simp: handle_create_request_def split: option.splits)
  from a f have "s = uuid4 e \<and> process_flowchart_request e p (session_path email (uuid4 e)) True w = (Inr out, w')"
    by (auto simp: handle_create_request_session respond_success)
  then show "s = uuid4 e" "out = output_name (uuid4 e)"
    "is_file w' (joinpath OUTPUT_DIR (output_name (uuid4 e)))"
    using process_flowchart_request_success session_success by blast+
next
  assume a: "handle_load_template_request e req w = (Inr (s, out), w')"
  then obtain email tid where f: "user_email req = Some email" "template_id req = Some tid"
    by (auto simp: handle_load_template_request_def split: option.splits)
  from a f have "s = uuid4 e \<and> (\<exists>code. process_dot_code e code (session_path email (uuid4 e)) w = (Inr out, w'))"
    by (auto simp: handle_load_template_request_session respond_success split: option.splits)
  then show "s = uuid4 e" "out = output_name (uuid4 e)"
    "is_file w' (joinpath OUTPUT_DIR (output_name (uuid4 e)))"
    using session_success by blast+
next
  assume "sid \<noteq> [] \<and> slash \<notin> set sid"
  then show "output_name sid = str ''flowchart_'' @ sid @ str ''.pdf''"
    by (simp add: output_name_def session_stem_plain)
next
  assume a: "user_email req = Some email \<and> session_id req = Some sid \<and> prompt req = Some p
        \<and> slash \<notin> set sid \<and> handle_add_request e req w = (Inr (s, out), w')"
  then obtain cur code where c: "stored_document w email sid = Some cur"
    "modify_dot_code e cur p = Some code"
    "process_dot_code e code (session_path email sid) (record_call (Modify cur p) w) = (Inr out, w')"
    using append_success [of req email sid p e w s out w'] by blast
  from a have plain: "slash \<notin> set sid" by simp
  from session_outputs [OF plain c(3)]
  have "\<exists>png template pdf.
           dot_exe e code = Completed png
           \<and> read_text w (parse_path PDF_TEMPLATE_PATH) = Some template
           \<and> fitz_insert e template png = Completed pdf
           \<and> (\<forall>n. read_text w' (OUTPUT_DIR @ [n]) =
                    (if n = output_name sid then Some pdf else read_text w (OUTPUT_DIR @ [n])))"
    by (simp only: read_record_call)
  with c(1,2)
  show "\<exists>cur code png template pdf.
             stored_document w email sid = Some cur \<and> modify_dot_code e cur p = Some code
             \<and> dot_exe e code = Completed png
             \<and> read_text w (parse_path PDF_TEMPLATE_PATH) = Some template
             \<and> fitz_insert e template png = Completed pdf
             \<and> (\<forall>n. read_text w' (OUTPUT_DIR @ [n]) =
                      (if n = output_name sid then Some pdf else read_text w (OUTPUT_DIR @ [n])))"
    by blast
next
  assume a: "user_email req = Some email \<and> prompt req = Some p
        \<and> slash \<notin> set (uuid4 e) \<and> handle_create_request e req w = (Inr (s, out), w')"
  then obtain code where c: "generate_initial_dot_code e p = Some code"
    "process_dot_code e code (session_path email (uuid4 e)) (record_call (GenerateInitial p) w)
       = (Inr out, w')"
    using create_success [of req email p e w s out w'] by blast
  from a have plain: "slash \<notin> set (uuid4 e)" by simp
  from session_outputs [OF plain c(2)]
  have "\<exists>png template pdf.
           dot_exe e code = Completed png
           \<and> read_text w (parse_path PDF_TEMPLATE_PATH) = Some template
           \<and> fitz_insert e template png = Completed pdf
           \<and> (\<forall>n. read_text w' (OUTPUT_DIR @ [n]) =
                    (if n = output_name (uuid4 e) then Some pdf else read_text w (OUTPUT_DIR @ [n])))"
    by (simp only: read_record_call)
  with c(1)
  show "\<exists>code png template pdf.
             generate_initial_dot_code e p = Some code
             \<and> dot_exe e code = Completed png
             \<and> read_text w (parse_path PDF_TEMPLATE_PATH) = Some template
             \<and> fitz_insert e template png = Completed pdf
             \<and> (\<forall>n. read_text w' (OUTPUT_DIR @ [n]) =
                      (if n = output_name (uuid4 e) then Some pdf else read_text w (OUTPUT_DIR @ [n])))"
    by blast
next
  assume a: "user_email req = Some email \<and> template_id req = Some tid
        \<and> slash \<notin> set (uuid4 e) \<and> handle_load_template_request e req w = (Inr (s, out), w')"
  then obtain code where c: "read_text w (joinpath TEMPLATE_DIR (tid @ str ''.dot'')) = Some code"
    "process_dot_code e code (session_path email (uuid4 e)) w = (Inr out, w')"
    using load_success [of req email tid e w s out w'] by blast
  from a have plain: "slash \<notin> set (uuid4 e)" by simp
  from session_outputs [OF plain c(2)] c(1)
  show "\<exists>code png template pdf.
             read_text w (joinpath TEMPLATE_DIR (tid @ str ''.dot'')) = Some code
             \<and> dot_exe e code = Completed png
             \<and> read_text w (parse_path PDF_TEMPLATE_PATH) = Some template
             \<and> fitz_insert e template png = Completed pdf
             \<and> (\<forall>n. read_text w' (OUTPUT_DIR @ [n]) =
                      (if n = output_name (uuid4 e) then Some pdf else read_text w (OUTPUT_DIR @ [n])))"
    by blast
next
  assume "user_email req = Some email \<and> session_id req = Some sid
        \<and> resolve w q \<noteq> resolve w (session_path email sid)
        \<and> resolve w q \<noteq> resolve w (joinpath TEMP_DIR (session_stem sid @ str ''.dot''))
        \<and> resolve w q \<noteq> resolve w (joinpath TEMP_DIR (session_stem sid @ str ''.png''))
        \<and> resolve w q \<noteq> resolve w (joinpath OUTPUT_DIR (output_name sid))"
  then show "read_text (snd (handle_add_request e req w)) q = read_text w q"
    by (simp add: append_frame)
next
  assume a: "user_email req = Some email
        \<and> resolve w q \<noteq> resolve w (session_path email (uuid4 e))
        \<and> resolve w q \<noteq> resolve w (joinpath TEMP_DIR (session_stem (uuid4 e) @ str ''.dot''))
        \<and> resolve w q \<noteq> resolve w (joinpath TEMP_DIR (session_stem (uuid4 e) @ str ''.png''))
        \<and> resolve w q \<noteq> resolve w (joinpath OUTPUT_DIR (output_name (uuid4 e)))"
  then show "read_text (snd (handle_create_request e req w)) q = read_text w q"
    by (simp add: create_frame)
  from a show "read_text (snd (handle_load_template_request e req w)) q = read_text w q"
    by (simp add: load_frame)
qed

text \<open>
  In the installation where bob's session was rendered the day before, his append puts
  the new PDF in the place of the old one and leaves the output of eve's session alone.
\<close>

theorem C6_witness:
  "is_file (snd (handle_add_request example_env add_request two_user_world))
     (joinpath OUTPUT_DIR (output_name bob_session))
   \<and> output_name bob_session = str ''flowchart_'' @ bob_session @ str ''.pdf''
   \<and> str ''flowchart_5d0c3f6e-8a41-4f7b-9c2d-3e1a7b6f0c55.pdf'' = output_name bob_session
   \<and> str ''flowchart_9f1c2e4a-7b3d-4c5e-8a6f-0d1e2f3a4b5c.pdf'' = output_name (uuid4 example_env)
   \<and> read_text two_user_world (OUTPUT_DIR @ [output_name bob_session]) = Some (str ''%PDF of yesterday'')
   \<and> read_text (snd (handle_add_request example_env add_request two_user_world))
        (OUTPUT_DIR @ [output_name bob_session]) = Some (str ''%PDFPNG'')
   \<and> (\<exists>code png template pdf.
         dot_exe example_env code = Completed png
         \<and> read_text two_user_world (parse_path PDF_TEMPLATE_PATH) = Some template
         \<and> fitz_insert example_env template png = Completed pdf
         \<and> read_text (snd (handle_add_request example_env add_request two_user_world))
              (OUTPUT_DIR @ [output_name bob_session]) = Some pdf
         \<and> read_text (snd (handle_add_request example_env add_request two_user_world))
              (OUTPUT_DIR @ [output_name eve_session])
             = read_text two_user_world (OUTPUT_DIR @ [output_name eve_session]))
   \<and> read_text (snd (handle_add_request example_env add_request two_user_world))
        (session_path (str ''eve@example.com'') eve_session)
     = read_text two_user_world (session_path (str ''eve@example.com'') eve_session)"
proof -
  let ?after = "snd (handle_add_request example_env add_request two_user_world)"
  have add_fst: "fst (handle_add_request example_env add_request two_user_world)
      = Inr (bob_session, str ''flowchart_5d0c3f6e-8a41-4f7b-9c2d-3e1a7b6f0c55.pdf'')"
    by code_simp
  then have add: "handle_add_request example_env add_request two_user_world
      = (Inr (bob_session, str ''flowchart_5d0c3f6e-8a41-4f7b-9c2d-3e1a7b6f0c55.pdf''), ?after)"
    by (simp add: prod_eq_iff)
  have create: "handle_create_request example_env create_request example_world
      = (Inr (uuid4 example_env, str ''flowchart_9f1c2e4a-7b3d-4c5e-8a6f-0d1e2f3a4b5c.pdf''),
         snd (handle_create_request example_env create_request example_world))"
    using create_succeeds by (simp add: prod_eq_iff)
  have ne: "bob_session \<noteq> []"
    by (simp add: bob_session_def str_def)
  have differ: "output_name eve_session \<noteq> output_name bob_session"
    by code_simp
  have before: "read_text two_user_world (OUTPUT_DIR @ [output_name bob_session])
                  = Some (str ''%PDF of yesterday'')"
    by code_simp
  have after: "read_text ?after (OUTPUT_DIR @ [output_name bob_session]) = Some (str ''%PDFPNG'')"
    by code_simp
  have apart:
    "resolve two_user_world (session_path (str ''eve@example.com'') eve_session)
       \<noteq> resolve two_user_world (session_path (str ''bob@example.com'') bob_session)"
    "resolve two_user_world (session_path (str ''eve@example.com'') eve_session)
       \<noteq> resolve two_user_world (joinpath TEMP_DIR (session_stem bob_session @ str ''.dot''))"
    "resolve two_user_world (session_path (str ''eve@example.com'') eve_session)
       \<noteq> resolve two_user_world (joinpath TEMP_DIR (session_stem bob_session @ str ''.png''))"
    "resolve two_user_world (session_path (str ''eve@example.com'') eve_session)
       \<noteq> resolve two_user_world (joinpath OUTPUT_DIR (output_name bob_session))"
    by code_simp+
  note inst = C6_output_name_from_session_id
    [where req = add_request and sid = bob_session and e = example_env and w = two_user_world
       and s = bob_session and out = "str ''flowchart_5d0c3f6e-8a41-4f7b-9c2d-3e1a7b6f0c55.pdf''"
       and w' = ?after and email = "str ''bob@example.com''" and p = "str ''Add step B after A''"
       and q = "session_path (str ''eve@example.com'') eve_session"]
  note named = inst [THEN conjunct1, rule_format]
  note plain_name = inst [THEN conjunct2, THEN conjunct2, THEN conjunct2, THEN conjunct1, rule_format]
  note content = inst [THEN conjunct2, THEN conjunct2, THEN conjunct2, THEN conjunct2,
      THEN conjunct1, rule_format]
  note frame = inst [THEN conjunct2, THEN conjunct2, THEN conjunct2, THEN conjunct2,
      THEN conjunct2, THEN conjunct2, THEN conjunct2, THEN conjunct1, rule_format]
  note created = C6_output_name_from_session_id
    [where req = create_request and e = example_env and w = example_world
       and s = "uuid4 example_env" and out = "str ''flowchart_9f1c2e4a-7b3d-4c5e-8a6f-0d1e2f3a4b5c.pdf''"
       and w' = "snd (handle_create_request example_env create_request example_world)",
     THEN conjunct2, THEN conjunct1, rule_format, OF create]
  have n1: "bob_session = bob_session
      \<and> str ''flowchart_5d0c3f6e-8a41-4f7b-9c2d-3e1a7b6f0c55.pdf'' = output_name bob_session
      \<and> is_file ?after (joinpath OUTPUT_DIR (output_name bob_session))"
    by (rule named) (intro conjI add add_request_fields)
  have n2: "output_name bob_session = str ''flowchart_'' @ bob_session @ str ''.pdf''"
    by (rule plain_name) (intro conjI ne bob_session_plain)
  have "\<exists>cur code png template pdf.
          stored_document two_user_world (str ''bob@example.com'') bob_session = Some cur
          \<and> modify_dot_code example_env cur (str ''Add step B after A'') = Some code
          \<and> dot_exe example_env code = Completed png
          \<and> read_text two_user_world (parse_path PDF_TEMPLATE_PATH) = Some template
          \<and> fitz_insert example_env template png = Completed pdf
          \<and> (\<forall>n. read_text ?after (OUTPUT_DIR @ [n]) =
                   (if n = output_name bob_session then Some pdf
                    else read_text two_user_world (OUTPUT_DIR @ [n])))"
    by (rule content) (intro conjI add add_request_fields bob_session_plain)
  then obtain code png template pdf where r:
    "dot_exe example_env code = Completed png"
    "read_text two_user_world (parse_path PDF_TEMPLATE_PATH) = Some template"
    "fitz_insert example_env template png = Completed pdf"
    "\<forall>n. read_text ?after (OUTPUT_DIR @ [n]) =
           (if n = output_name bob_session then Some pdf
            else read_text two_user_world (OUTPUT_DIR @ [n]))"
    by blast
  from r(4) have "read_text ?after (OUTPUT_DIR @ [output_name bob_session]) = Some pdf"
    by simp
  moreover from r(4) differ
  have "read_text ?after (OUTPUT_DIR @ [output_name eve_session])
            = read_text two_user_world (OUTPUT_DIR @ [output_name eve_session])"
    by simp
  ultimately
  have second: "\<exists>code png template pdf.
         dot_exe example_env code = Completed png
         \<and> read_text two_user_world (parse_path PDF_TEMPLATE_PATH) = Some template
         \<and> fitz_insert example_env template png = Completed pdf
         \<and> read_text ?after (OUTPUT_DIR @ [output_name bob_session]) = Some pdf
         \<and> read_text ?after (OUTPUT_DIR @ [output_name eve_session])
             = read_text two_user_world (OUTPUT_DIR @ [output_name eve_session])"
    using r(1-3) by blast
  have third: "read_text ?after (session_path (str ''eve@example.com'') eve_session)
     = read_text two_user_world (session_path (str ''eve@example.com'') eve_session)"
    by (rule frame) (intro conjI add_request_fields apart)
  have fourth: "str ''flowchart_9f1c2e4a-7b3d-4c5e-8a6f-0d1e2f3a4b5c.pdf'' = output_name (uuid4 example_env)"
    using created by simp
  show ?thesis
    using n1 n2 second third fourth before after by blast
qed

text \<open>
  C1. \<open>handle_load_template_request\<close> joins the template id to the template directory and
  asks the file system whether a file is there; it compares the id with no list. In the
  concrete installation \<open>list_templates\<close> answers with no template at all, and the id
  \<open>../session_files/bob_example_com/<bob's session>\<close> is still loaded: the request succeeds, and
  a new session of eve holds bob's document.
\<close>

theorem C1_traversal_loads_foreign_document:
  "list_templates example_world = []
   \<and> fst (handle_load_template_request example_env traversal_request example_world)
       = Inr (uuid4 example_env, str ''flowchart_9f1c2e4a-7b3d-4c5e-8a6f-0d1e2f3a4b5c.pdf'')
   \<and> stored_document (snd (handle_load_template_request example_env traversal_request example_world))
         (str ''eve@example.com'') (uuid4 example_env)
       = Some (str ''digraph flowchart { Payroll; }'')"
  by code_simp

text \<open>
  C2. When the template PDF is missing, a create renders the image and then answers
  \<open>EmbedFailed\<close>; \<open>process_dot_code\<close> returns at that point, before the lines that unlink the
  temporary image, and the image is still in the temporary directory afterwards.
\<close>

theorem C2_embed_failure_leaves_temporary_image:
  "fst (handle_create_request example_env create_request (example_world\<lparr>files := []\<rparr>))
     = Inl EmbedFailed
   \<and> read_text (snd (handle_create_request example_env create_request (example_world\<lparr>files := []\<rparr>)))
         (joinpath TEMP_DIR (uuid4 example_env @ str ''.png''))
     = Some (str ''PNG'')"
  by code_simp

end
